theory Spec2Isabelle
  imports Main
begin

section \<open>Values, exceptions and the outside world\<close>

text \<open>
  The script \<^verbatim>\<open>cloudflare-setup.py\<close> talks to three things outside itself: the
  provider's HTTP API, the terminal it prints to, and standard input. The model makes each of
  them explicit. A decoded JSON document is a value of \<open>json\<close>; Python's \<^verbatim>\<open>None\<close> is
  what \<^verbatim>\<open>null\<close> decodes to, so both are \<open>JNull\<close>. Numbers are the integers (the
  provider's documented shapes hold no floating point number). A decoded object holds each
  key once and is kept as an association list in document order.
\<close>

datatype json =
    JNull
  | JBool bool
  | JNum int
  | JStr string
  | JArr "json list"
  | JObj "(string \<times> json) list"

text \<open>
  Python exceptions, as far as the script can meet them. The argument of \<open>ApiError\<close> is
  the value of \<^verbatim>\<open>result.get('errors')\<close> that line 103 formats into the message of the
  \<^verbatim>\<open>Exception\<close> it raises. \<open>RequestFailed\<close> stands for whatever
  \<^verbatim>\<open>requests\<close> or \<^verbatim>\<open>response.json()\<close> raise (connection errors, a body that is
  not JSON): all of them derive from \<^verbatim>\<open>Exception\<close>.
\<close>

datatype exn =
    ApiError json
  | RequestFailed string
  | AttributeError
  | KeyError string
  | TypeError
  | UnboundLocalError
  | EOFError
  | KeyboardInterrupt
  | SystemExit nat

text \<open>
  \<^verbatim>\<open>except Exception\<close> catches every exception but the two that derive from
  \<^verbatim>\<open>BaseException\<close> only; a bare \<^verbatim>\<open>except:\<close> catches all of them.
\<close>

fun is_Exception :: "exn \<Rightarrow> bool" where
  "is_Exception KeyboardInterrupt = False"
| "is_Exception (SystemExit n) = False"
| "is_Exception e = True"

fun bare_except :: "exn \<Rightarrow> bool" where
  "bare_except e = True"

text \<open>
  One HTTP call as the provider sees it, and what comes back: a decoded JSON body, a failure
  of the transport or of the decoding, or a keyboard interrupt that arrives while the call
  is in flight.
\<close>

record request =
  req_method :: string
  req_url :: string
  req_headers :: "(string \<times> string) list"
  req_body :: "json option"

datatype reply = Decoded json | Failed string | Interrupted

type_synonym 'w provider = "request \<Rightarrow> 'w \<Rightarrow> reply \<times> 'w"

text \<open>What \<^verbatim>\<open>input()\<close> can read: a line, or Ctrl-C; the end of the list is end of file.\<close>

datatype input_event = Line string | CtrlC

text \<open>
  Everything the script prints, one constructor per \<^verbatim>\<open>print\<close> statement (or block of
  adjacent constant ones) with the values it interpolates; the comments give the source
  lines. The prompt of \<^verbatim>\<open>input\<close> is printed too.
\<close>

datatype msg =
    Banner                    \<comment> \<open>204-208\<close>
  | ConfigError               \<comment> \<open>212-215\<close>
  | ListingHeader             \<comment> \<open>113\<close>
  | FoundRules nat            \<comment> \<open>120\<close>
  | RuleTitle nat json        \<comment> \<open>123\<close>
  | RuleAction json           \<comment> \<open>124\<close>
  | RuleEnabled json          \<comment> \<open>125\<close>
  | Blank                     \<comment> \<open>126, 200\<close>
  | NoRulesFound              \<comment> \<open>128\<close>
  | ListFailed exn            \<comment> \<open>131\<close>
  | DeletingHeader            \<comment> \<open>135\<close>
  | AllDeleted                \<comment> \<open>143\<close>
  | DeleteFailed exn          \<comment> \<open>146\<close>
  | AddingHeader              \<comment> \<open>150\<close>
  | AddingRule nat json       \<comment> \<open>161\<close>
  | RuleSuccess               \<comment> \<open>170\<close>
  | RuleFailed exn            \<comment> \<open>173\<close>
  | AllAdded                  \<comment> \<open>175\<close>
  | ConfiguringHeader         \<comment> \<open>179\<close>
  | SettingOk string          \<comment> \<open>196\<close>
  | SettingFailed string exn  \<comment> \<open>198\<close>
  | DeletePrompt              \<comment> \<open>226\<close>
  | SetupWarning              \<comment> \<open>235-236\<close>
  | SetupPrompt               \<comment> \<open>239\<close>
  | Cancelled                 \<comment> \<open>230, 241\<close>
  | SetupComplete             \<comment> \<open>254-262\<close>
  | Usage                     \<comment> \<open>265-270\<close>
  | CancelledByUser           \<comment> \<open>276\<close>
  | FatalError exn            \<comment> \<open>279\<close>

text \<open>
  The state of a run: the provider's state, the HTTP calls made so far with their replies
  (oldest first), the lines printed so far, and the input not yet read.
\<close>

record 'w state =
  world :: 'w
  trace :: "(request \<times> reply) list"
  out :: "msg list"
  stdin :: "input_event list"

definition init :: "'w \<Rightarrow> input_event list \<Rightarrow> 'w state" where
  "init w inp = \<lparr>world = w, trace = [], out = [], stdin = inp\<rparr>"

text \<open>
  A statement either returns a value or raises, and changes the state either way.
\<close>

type_synonym ('a, 'w) prog = "'w state \<Rightarrow> (exn + 'a) \<times> 'w state"

definition ret :: "'a \<Rightarrow> ('a, 'w) prog" where
  "ret x s = (Inr x, s)"

definition py_raise :: "exn \<Rightarrow> ('a, 'w) prog" where
  "py_raise e s = (Inl e, s)"

definition lift :: "exn + 'a \<Rightarrow> ('a, 'w) prog" where
  "lift r s = (r, s)"

definition andthen :: "('a, 'w) prog \<Rightarrow> ('a \<Rightarrow> ('b, 'w) prog) \<Rightarrow> ('b, 'w) prog" where
  "andthen m f s = (case m s of (Inl e, s') \<Rightarrow> (Inl e, s') | (Inr x, s') \<Rightarrow> f x s')"

text \<open>\<^verbatim>\<open>try: m  except <catches> as e: h e\<close>\<close>

definition try_except :: "('a, 'w) prog \<Rightarrow> (exn \<Rightarrow> bool) \<Rightarrow> (exn \<Rightarrow> ('a, 'w) prog) \<Rightarrow> ('a, 'w) prog" where
  "try_except m catches h s =
     (case m s of
        (Inl e, s') \<Rightarrow> if catches e then h e s' else (Inl e, s')
      | (Inr x, s') \<Rightarrow> (Inr x, s'))"

definition py_print :: "msg \<Rightarrow> (unit, 'w) prog" where
  "py_print m s = (Inr (), s\<lparr>out := out s @ [m]\<rparr>)"

text \<open>
  \<^verbatim>\<open>input(prompt)\<close> prints the prompt and reads one line without its newline;
  at end of file it raises \<^verbatim>\<open>EOFError\<close>.
\<close>

definition py_input :: "msg \<Rightarrow> (string, 'w) prog" where
  "py_input prompt s =
     (let s1 = s\<lparr>out := out s @ [prompt]\<rparr> in
      case stdin s1 of
        [] \<Rightarrow> (Inl EOFError, s1)
      | Line l # rest \<Rightarrow> (Inr l, s1\<lparr>stdin := rest\<rparr>)
      | CtrlC # rest \<Rightarrow> (Inl KeyboardInterrupt, s1\<lparr>stdin := rest\<rparr>))"

text \<open>\<^verbatim>\<open>sys.exit(n)\<close> raises \<^verbatim>\<open>SystemExit(n)\<close>.\<close>

definition sys_exit :: "nat \<Rightarrow> ('a, 'w) prog" where
  "sys_exit n = py_raise (SystemExit n)"

subsection \<open>The Python operations on decoded values\<close>

text \<open>Truth value testing, as \<^verbatim>\<open>if\<close>, \<^verbatim>\<open>not\<close> and \<^verbatim>\<open>and\<close> do it.\<close>

fun truthy :: "json \<Rightarrow> bool" where
  "truthy JNull = False"
| "truthy (JBool b) = b"
| "truthy (JNum n) = (n \<noteq> 0)"
| "truthy (JStr s) = (s \<noteq> [])"
| "truthy (JArr xs) = (xs \<noteq> [])"
| "truthy (JObj kvs) = (kvs \<noteq> [])"

text \<open>\<^verbatim>\<open>v.get(k, d)\<close>: only a dict has the method.\<close>

fun py_get_default :: "json \<Rightarrow> string \<Rightarrow> json \<Rightarrow> exn + json" where
  "py_get_default (JObj kvs) k d = Inr (case map_of kvs k of None \<Rightarrow> d | Some v \<Rightarrow> v)"
| "py_get_default v k d = Inl AttributeError"

text \<open>\<^verbatim>\<open>v.get(k)\<close>\<close>

definition py_get :: "json \<Rightarrow> string \<Rightarrow> exn + json" where
  "py_get v k = py_get_default v k JNull"

text \<open>\<^verbatim>\<open>v[k]\<close> with a string key: a dict without the key raises
  \<^verbatim>\<open>KeyError\<close>, any other value \<^verbatim>\<open>TypeError\<close>.\<close>

fun py_index :: "json \<Rightarrow> string \<Rightarrow> exn + json" where
  "py_index (JObj kvs) k = (case map_of kvs k of None \<Rightarrow> Inl (KeyError k) | Some v \<Rightarrow> Inr v)"
| "py_index v k = Inl TypeError"

text \<open>\<^verbatim>\<open>len(v)\<close>\<close>

fun py_len :: "json \<Rightarrow> exn + nat" where
  "py_len (JStr s) = Inr (length s)"
| "py_len (JArr xs) = Inr (length xs)"
| "py_len (JObj kvs) = Inr (length kvs)"
| "py_len v = Inl TypeError"

text \<open>The items a \<^verbatim>\<open>for\<close> loop draws from a value: the elements of a list, the keys
  of a dict, the characters of a string.\<close>

fun py_iter :: "json \<Rightarrow> exn + json list" where
  "py_iter (JArr xs) = Inr xs"
| "py_iter (JObj kvs) = Inr (map (\<lambda>kv. JStr (fst kv)) kvs)"
| "py_iter (JStr s) = Inr (map (\<lambda>c. JStr [c]) s)"
| "py_iter v = Inl TypeError"

text \<open>\<^verbatim>\<open>v[:60]\<close>\<close>

fun py_slice60 :: "json \<Rightarrow> exn + json" where
  "py_slice60 (JStr s) = Inr (JStr (take 60 s))"
| "py_slice60 (JArr xs) = Inr (JArr (take 60 xs))"
| "py_slice60 v = Inl TypeError"

text \<open>
  \<^verbatim>\<open>s.lower()\<close>. Strings are sequences of bytes here; the script only compares the
  result with \<^verbatim>\<open>'yes'\<close>, and no character outside A-Z has \<^verbatim>\<open>y\<close>, \<^verbatim>\<open>e\<close> or
  \<^verbatim>\<open>s\<close> as its lower case, so lowering the ASCII capitals decides that comparison as
  Python does.
\<close>

definition lower_char :: "char \<Rightarrow> char" where
  "lower_char c =
     (case map_of (zip ''ABCDEFGHIJKLMNOPQRSTUVWXYZ'' ''abcdefghijklmnopqrstuvwxyz'') c of
        None \<Rightarrow> c
      | Some d \<Rightarrow> d)"

definition py_lower :: "string \<Rightarrow> string" where
  "py_lower s = map lower_char s"

text \<open>
  \<^verbatim>\<open>f'{v}'\<close> of a decoded value inside a path. A string stands for itself; how Python
  writes any other value is left to the parameter \<open>fmt\<close>.
\<close>

fun py_str :: "(json \<Rightarrow> string) \<Rightarrow> json \<Rightarrow> string" where
  "py_str fmt (JStr s) = s"
| "py_str fmt v = fmt v"

section \<open>The script\<close>

subsection \<open>Configuration and the static tables\<close>

text \<open>
  Lines 22-23: the two credentials are constants the operator edits into the script before
  running it, so the model takes them as a parameter. As shipped they hold the placeholders
  that line 211 tests for.
\<close>

record config =
  CLOUDFLARE_API_TOKEN :: string
  ZONE_ID :: string

definition API_BASE :: string where
  "API_BASE = ''https://api.cloudflare.com/client/v4''"

text \<open>Lines 31-74, one definition per rule, in the key order of the source.\<close>

definition rule_1 :: json where
  \<open>rule_1 = JObj [
     (''action'', JStr ''block''),
     (''description'', JStr ''Block AI bots, scrapers, and malicious user agents to protect LGBTQ+ user privacy''),
     (''expression'', JStr ''(cf.bot_management.score lt 30) or (http.user_agent contains "GPTBot") or (http.user_agent contains "ChatGPT") or (http.user_agent contains "Claude-Web") or (http.user_agent contains "anthropic-ai") or (http.user_agent contains "Google-Extended") or (http.user_agent contains "CCBot") or (http.user_agent contains "FacebookBot") or (http.user_agent contains "Bytespider") or (http.user_agent contains "Applebot-Extended") or (http.user_agent contains "PerplexityBot") or (http.user_agent contains "Diffbot") or (http.user_agent contains "Scrapy") or (http.user_agent contains "python-requests") or (http.user_agent contains "curl") or (http.user_agent contains "wget") or (http.user_agent contains "sqlmap") or (http.user_agent contains "nikto") or (http.user_agent contains "nmap") or (http.user_agent eq "")''),
     (''enabled'', JBool True)]\<close>

definition rule_2 :: json where
  \<open>rule_2 = JObj [
     (''action'', JStr ''managed_challenge''),
     (''description'', JStr ''Protect admin panel, auth endpoints, and challenge high threat traffic''),
     (''expression'', JStr ''((http.request.uri.path contains "/api/admin") and (cf.threat_score gt 10)) or ((http.request.uri.path contains "/api/auth/login" or http.request.uri.path contains "/api/auth/signup" or http.request.uri.path contains "/api/auth/reset-password") and (cf.threat_score gt 5)) or (cf.threat_score gt 20)''),
     (''enabled'', JBool True)]\<close>

definition rule_3 :: json where
  \<open>rule_3 = JObj [
     (''action'', JStr ''block''),
     (''description'', JStr ''Block SQL injection, XSS attacks, and malicious file upload attempts''),
     (''expression'', JStr ''(http.request.uri.query contains "UNION SELECT") or (http.request.uri.query contains "DROP TABLE") or (http.request.uri.query contains "<script>") or (http.request.uri.query contains "javascript:") or (http.request.uri.query contains "onerror=") or (http.request.uri.query contains "onload=") or ((http.request.uri.path contains "/api/upload") and (http.request.body contains ".php" or http.request.body contains ".exe" or http.request.body contains ".sh" or http.request.body contains ".bat"))''),
     (''enabled'', JBool True)]\<close>

definition rule_4 :: json where
  \<open>rule_4 = JObj [
     (''action'', JStr ''block''),
     (''description'', JStr ''Block signups from high-risk countries while allowing read access for LGBTQ+ users''),
     (''expression'', JStr ''(ip.geoip.country in {"IR" "AF" "PK" "IQ" "UG" "SA" "RU" "CN" "KP"}) and (http.request.uri.path contains "/api/auth/signup")''),
     (''enabled'', JBool True)]\<close>

definition rule_5 :: json where
  \<open>rule_5 = JObj [
     (''action'', JStr ''skip''),
     (''action_parameters'', JObj [(''ruleset'', JStr ''current'')]),
     (''description'', JStr ''Whitelist your development IP and trusted services (UPDATE WITH YOUR IP)''),
     (''expression'', JStr ''(ip.src in {1.2.3.4}) or (http.user_agent contains "UptimeRobot")''),
     (''enabled'', JBool False)]\<close>

definition SECURITY_RULES :: "json list" where
  "SECURITY_RULES = [rule_1, rule_2, rule_3, rule_4, rule_5]"

text \<open>Lines 181-187: setting, value, message.\<close>

definition settings :: "(string \<times> string \<times> string) list" where
  "settings = [
     (''security_level'', ''medium'', ''Security level set to Medium''),
     (''browser_check'', ''on'', ''Browser Integrity Check enabled''),
     (''always_use_https'', ''on'', ''Always Use HTTPS enabled''),
     (''min_tls_version'', ''1.2'', ''Minimum TLS version set to 1.2''),
     (''tls_1_3'', ''on'', ''TLS 1.3 enabled'')]"

text \<open>The path that lines 116, 139, 154 and 165 all build.\<close>

definition entrypoint :: "config \<Rightarrow> string" where
  "entrypoint cfg =
     ''/zones/'' @ ZONE_ID cfg @ ''/rulesets/phases/http_request_firewall_custom/entrypoint''"

subsection \<open>The request helper (lines 80-105)\<close>

text \<open>
  The call of \<^verbatim>\<open>requests\<close> together with \<^verbatim>\<open>response.json()\<close>: the provider answers
  the request, the call is added to the trace, and the reply becomes a value or an exception.
\<close>

definition http_call :: "'w provider \<Rightarrow> request \<Rightarrow> (json, 'w) prog" where
  "http_call P req s =
     (case P req (world s) of
        (rep, w') \<Rightarrow>
          (case rep of
             Decoded j \<Rightarrow> Inr j
           | Failed m \<Rightarrow> Inl (RequestFailed m)
           | Interrupted \<Rightarrow> Inl KeyboardInterrupt,
           s\<lparr>world := w', trace := trace s @ [(req, rep)]\<rparr>))"

text \<open>
  GET and DELETE send no body even when \<open>data\<close> is given. A method that is none of the
  five leaves \<^verbatim>\<open>response\<close> unbound, and line 100 raises \<^verbatim>\<open>UnboundLocalError\<close>
  without any call.
\<close>

definition make_request :: "config \<Rightarrow> 'w provider \<Rightarrow> string \<Rightarrow> string \<Rightarrow> json option \<Rightarrow> (json, 'w) prog" where
  "make_request cfg P endpoint meth data =
     (let headers = [(''Authorization'', ''Bearer '' @ CLOUDFLARE_API_TOKEN cfg),
                     (''Content-Type'', ''application/json'')];
          url = API_BASE @ endpoint
      in andthen
           (if meth = ''GET'' then
              http_call P \<lparr>req_method = ''GET'', req_url = url, req_headers = headers, req_body = None\<rparr>
            else if meth = ''POST'' then
              http_call P \<lparr>req_method = ''POST'', req_url = url, req_headers = headers, req_body = data\<rparr>
            else if meth = ''PUT'' then
              http_call P \<lparr>req_method = ''PUT'', req_url = url, req_headers = headers, req_body = data\<rparr>
            else if meth = ''PATCH'' then
              http_call P \<lparr>req_method = ''PATCH'', req_url = url, req_headers = headers, req_body = data\<rparr>
            else if meth = ''DELETE'' then
              http_call P \<lparr>req_method = ''DELETE'', req_url = url, req_headers = headers, req_body = None\<rparr>
            else py_raise UnboundLocalError)
           (\<lambda>result.
              andthen (lift (py_get result ''success'')) (\<lambda>success.
                if \<not> truthy success then
                  andthen (lift (py_get result ''errors'')) (\<lambda>errors. py_raise (ApiError errors))
                else ret result)))"

subsection \<open>Listing (lines 111-131)\<close>

text \<open>The body of the \<^verbatim>\<open>for\<close> loop of lines 122-126, \<open>i\<close> counting from 1.\<close>

fun show_rules :: "nat \<Rightarrow> json list \<Rightarrow> (unit, 'w) prog" where
  "show_rules i [] = ret ()"
| "show_rules i (rule # rules) =
     andthen (lift (py_get_default rule ''description'' (JStr ''Unnamed rule''))) (\<lambda>d.
     andthen (py_print (RuleTitle i d)) (\<lambda>_.
     andthen (lift (py_get rule ''action'')) (\<lambda>a.
     andthen (py_print (RuleAction a)) (\<lambda>_.
     andthen (lift (py_get rule ''enabled'')) (\<lambda>e.
     andthen (py_print (RuleEnabled e)) (\<lambda>_.
     andthen (py_print Blank) (\<lambda>_.
     show_rules (Suc i) rules)))))))"

text \<open>Lines 116-128, the body of the \<^verbatim>\<open>try\<close>. In \<^verbatim>\<open>a and b\<close> the right operand is
  evaluated only when the left one is true.\<close>

definition list_rules_body :: "config \<Rightarrow> 'w provider \<Rightarrow> (unit, 'w) prog" where
  "list_rules_body cfg P =
     andthen (make_request cfg P (entrypoint cfg) ''GET'' None) (\<lambda>result.
     andthen (lift (py_get result ''result'')) (\<lambda>r.
     andthen (if \<not> truthy r then ret False
              else andthen (lift (py_index result ''result'')) (\<lambda>r'.
                   andthen (lift (py_get r' ''rules'')) (\<lambda>rs. ret (truthy rs)))) (\<lambda>has_rules.
     if has_rules then
       andthen (lift (py_index result ''result'')) (\<lambda>r'.
       andthen (lift (py_index r' ''rules'')) (\<lambda>rules.
       andthen (lift (py_len rules)) (\<lambda>n.
       andthen (py_print (FoundRules n)) (\<lambda>_.
       andthen (lift (py_iter rules)) (\<lambda>items.
       show_rules 1 items)))))
     else py_print NoRulesFound)))"

definition list_existing_rules :: "config \<Rightarrow> 'w provider \<Rightarrow> (unit, 'w) prog" where
  "list_existing_rules cfg P =
     andthen (py_print ListingHeader) (\<lambda>_.
     try_except (list_rules_body cfg P) is_Exception (\<lambda>e. py_print (ListFailed e)))"

subsection \<open>Deleting (lines 133-146)\<close>

definition delete_all_rules :: "config \<Rightarrow> 'w provider \<Rightarrow> (unit, 'w) prog" where
  "delete_all_rules cfg P =
     andthen (py_print DeletingHeader) (\<lambda>_.
     try_except
       (andthen (make_request cfg P (entrypoint cfg) ''PUT'' (Some (JObj [(''rules'', JArr [])]))) (\<lambda>_.
        py_print AllDeleted))
       is_Exception
       (\<lambda>e. py_print (DeleteFailed e)))"

subsection \<open>Adding the rules (lines 148-175)\<close>

text \<open>
  Lines 153-157. The \<^verbatim>\<open>except:\<close> is bare: whatever the lookup raises, the keyboard
  interrupt included, leaves \<^verbatim>\<open>ruleset_id = None\<close>.
\<close>

definition get_ruleset_id :: "config \<Rightarrow> 'w provider \<Rightarrow> (json, 'w) prog" where
  "get_ruleset_id cfg P =
     try_except
       (andthen (make_request cfg P (entrypoint cfg) ''GET'' None) (\<lambda>result.
        andthen (lift (py_index result ''result'')) (\<lambda>r.
        lift (py_index r ''id''))))
       bare_except
       (\<lambda>e. ret JNull)"

text \<open>The path of line 165.\<close>

definition rules_path :: "config \<Rightarrow> (json \<Rightarrow> string) \<Rightarrow> json \<Rightarrow> string" where
  "rules_path cfg fmt ruleset_id =
     (if truthy ruleset_id
      then ''/zones/'' @ ZONE_ID cfg @ ''/rulesets/'' @ py_str fmt ruleset_id @ ''/rules''
      else entrypoint cfg)"

text \<open>Lines 160-173, one round of the loop.\<close>

definition add_rule :: "config \<Rightarrow> 'w provider \<Rightarrow> (json \<Rightarrow> string) \<Rightarrow> json \<Rightarrow> nat \<Rightarrow> json \<Rightarrow> (unit, 'w) prog" where
  "add_rule cfg P fmt ruleset_id i rule =
     try_except
       (andthen (lift (py_index rule ''description'')) (\<lambda>d.
        andthen (lift (py_slice60 d)) (\<lambda>d60.
        andthen (py_print (AddingRule i d60)) (\<lambda>_.
        andthen (make_request cfg P (rules_path cfg fmt ruleset_id) ''POST'' (Some rule)) (\<lambda>_.
        py_print RuleSuccess)))))
       is_Exception
       (\<lambda>e. py_print (RuleFailed e))"

fun add_rules_loop :: "config \<Rightarrow> 'w provider \<Rightarrow> (json \<Rightarrow> string) \<Rightarrow> json \<Rightarrow> nat \<Rightarrow> json list \<Rightarrow> (unit, 'w) prog" where
  "add_rules_loop cfg P fmt ruleset_id i [] = ret ()"
| "add_rules_loop cfg P fmt ruleset_id i (rule # rules) =
     andthen (add_rule cfg P fmt ruleset_id i rule) (\<lambda>_.
     add_rules_loop cfg P fmt ruleset_id (Suc i) rules)"

definition add_security_rules :: "config \<Rightarrow> 'w provider \<Rightarrow> (json \<Rightarrow> string) \<Rightarrow> (unit, 'w) prog" where
  "add_security_rules cfg P fmt =
     andthen (py_print AddingHeader) (\<lambda>_.
     andthen (get_ruleset_id cfg P) (\<lambda>ruleset_id.
     andthen (add_rules_loop cfg P fmt ruleset_id 1 SECURITY_RULES) (\<lambda>_.
     py_print AllAdded)))"

subsection \<open>The zone settings (lines 177-200)\<close>

definition set_setting :: "config \<Rightarrow> 'w provider \<Rightarrow> string \<times> string \<times> string \<Rightarrow> (unit, 'w) prog" where
  "set_setting cfg P svm =
     (case svm of (setting, val, message) \<Rightarrow>
        try_except
          (andthen (make_request cfg P (''/zones/'' @ ZONE_ID cfg @ ''/settings/'' @ setting)
                      ''PATCH'' (Some (JObj [(''value'', JStr val)]))) (\<lambda>_.
           py_print (SettingOk message)))
          is_Exception
          (\<lambda>e. py_print (SettingFailed setting e)))"

fun settings_loop :: "config \<Rightarrow> 'w provider \<Rightarrow> (string \<times> string \<times> string) list \<Rightarrow> (unit, 'w) prog" where
  "settings_loop cfg P [] = ret ()"
| "settings_loop cfg P (svm # rest) =
     andthen (set_setting cfg P svm) (\<lambda>_. settings_loop cfg P rest)"

definition configure_security_settings :: "config \<Rightarrow> 'w provider \<Rightarrow> (unit, 'w) prog" where
  "configure_security_settings cfg P =
     andthen (py_print ConfiguringHeader) (\<lambda>_.
     andthen (settings_loop cfg P settings) (\<lambda>_.
     py_print Blank))"

subsection \<open>The dispatcher (lines 202-270) and the top level (lines 272-280)\<close>

definition main :: "config \<Rightarrow> 'w provider \<Rightarrow> (json \<Rightarrow> string) \<Rightarrow> string list \<Rightarrow> (unit, 'w) prog" where
  "main cfg P fmt args =
     andthen (py_print Banner) (\<lambda>_.
     andthen (if CLOUDFLARE_API_TOKEN cfg = ''YOUR_API_TOKEN_HERE'' \<or> ZONE_ID cfg = ''YOUR_ZONE_ID_HERE''
              then andthen (py_print ConfigError) (\<lambda>_. sys_exit 1)
              else ret ()) (\<lambda>_.
     if ''--list'' \<in> set args then
       list_existing_rules cfg P
     else if ''--delete'' \<in> set args then
       andthen (list_existing_rules cfg P) (\<lambda>_.
       andthen (py_input DeletePrompt) (\<lambda>confirm.
       if py_lower confirm = ''yes'' then delete_all_rules cfg P
       else py_print Cancelled))
     else if ''--setup'' \<in> set args then
       andthen (list_existing_rules cfg P) (\<lambda>_.
       andthen (py_print SetupWarning) (\<lambda>_.
       andthen (if ''--force'' \<notin> set args then
                  andthen (py_input SetupPrompt) (\<lambda>confirm.
                  if py_lower confirm \<noteq> ''yes''
                  then andthen (py_print Cancelled) (\<lambda>_. sys_exit 0)
                  else ret ())
                else ret ()) (\<lambda>_.
       andthen (if ''--delete'' \<in> set args then delete_all_rules cfg P else ret ()) (\<lambda>_.
       andthen (add_security_rules cfg P fmt) (\<lambda>_.
       andthen (configure_security_settings cfg P) (\<lambda>_.
       py_print SetupComplete))))))
     else py_print Usage))"

text \<open>
  Lines 272-280, with the exit status of the process: 0 when \<^verbatim>\<open>main\<close> returns, the
  argument of \<^verbatim>\<open>sys.exit\<close> when \<^verbatim>\<open>SystemExit\<close> leaves \<^verbatim>\<open>main\<close> (neither handler
  catches it).
\<close>

definition run :: "config \<Rightarrow> 'w provider \<Rightarrow> (json \<Rightarrow> string) \<Rightarrow> string list \<Rightarrow> 'w state \<Rightarrow> nat \<times> 'w state" where
  "run cfg P fmt args s =
     (case main cfg P fmt args s of
        (Inr u, s') \<Rightarrow> (0, s')
      | (Inl KeyboardInterrupt, s') \<Rightarrow> (0, s'\<lparr>out := out s' @ [CancelledByUser]\<rparr>)
      | (Inl (SystemExit n), s') \<Rightarrow> (n, s')
      | (Inl e, s') \<Rightarrow> (1, s'\<lparr>out := out s' @ [FatalError e]\<rparr>))"

section \<open>Providers\<close>

text \<open>
  A provider that plays back a fixed sequence of replies, one per call, whatever the call
  is; once the sequence is used up every further call fails in the transport.
\<close>

definition scripted :: "(reply list) provider" where
  "scripted req rs = (case rs of [] \<Rightarrow> (Failed ''no reply'', []) | r # rest \<Rightarrow> (r, rest))"

text \<open>
  Modelled from the spec: the provider's API is an external service, no code of this
  repository. Section 6 of the specification gives the shapes the script relies on:
  \<^verbatim>\<open>GET\<close> on a zone's entrypoint answers \<^verbatim>\<open>{success, result: {id, rules}}\<close> with the
  current ruleset, \<^verbatim>\<open>PUT\<close> on the same path with \<^verbatim>\<open>{rules: [...]}\<close> replaces the
  ruleset, \<^verbatim>\<open>POST\<close> on \<^verbatim>\<open>/zones/{zone}/rulesets/{id}/rules\<close> with one rule body
  appends the rule, and every answer carries a \<^verbatim>\<open>success\<close> boolean and, on failure, an
  \<^verbatim>\<open>errors\<close> list. The state of the provider is one zone.
\<close>

record zone =
  zone_name :: string
  zone_ruleset :: string
  zone_rules :: "json list"

definition ruleset_reply :: "zone \<Rightarrow> json" where
  "ruleset_reply z =
     JObj [(''success'', JBool True),
           (''errors'', JArr []),
           (''result'', JObj [(''id'', JStr (zone_ruleset z)), (''rules'', JArr (zone_rules z))])]"

definition error_reply :: "string \<Rightarrow> json" where
  "error_reply m =
     JObj [(''success'', JBool False),
           (''errors'', JArr [JObj [(''message'', JStr m)]])]"

definition zone_provider :: "zone provider" where
  "zone_provider req z =
     (let base = API_BASE @ ''/zones/'' @ zone_name z @ ''/rulesets/'';
          entry = base @ ''phases/http_request_firewall_custom/entrypoint''
      in
      if req_url req = entry \<and> req_method req = ''GET'' then
        (Decoded (ruleset_reply z), z)
      else if req_url req = entry \<and> req_method req = ''PUT'' then
        (case req_body req of
           Some (JObj kvs) \<Rightarrow>
             (case map_of kvs ''rules'' of
                Some (JArr rs) \<Rightarrow> (Decoded (ruleset_reply (z\<lparr>zone_rules := rs\<rparr>)), z\<lparr>zone_rules := rs\<rparr>)
              | _ \<Rightarrow> (Decoded (error_reply ''malformed ruleset''), z))
         | _ \<Rightarrow> (Decoded (error_reply ''malformed ruleset''), z))
      else if req_url req = base @ zone_ruleset z @ ''/rules'' \<and> req_method req = ''POST'' then
        (case req_body req of
           Some rule \<Rightarrow>
             (Decoded (ruleset_reply (z\<lparr>zone_rules := zone_rules z @ [rule]\<rparr>)),
              z\<lparr>zone_rules := zone_rules z @ [rule]\<rparr>)
         | None \<Rightarrow> (Decoded (error_reply ''missing rule''), z))
      else (Decoded (error_reply ''not found''), z))"

section \<open>Notions for stating the properties\<close>

text \<open>
  The request that \<open>make_request\<close> sends for one of the five methods it knows, what it
  makes of the reply, and the state after the call. Lemma \<open>make_request_known\<close> below
  shows that \<open>make_request\<close> is exactly these three put together.
\<close>

definition sent_request :: "config \<Rightarrow> string \<Rightarrow> string \<Rightarrow> json option \<Rightarrow> request" where
  "sent_request cfg endpoint meth data =
     \<lparr>req_method = meth,
      req_url = API_BASE @ endpoint,
      req_headers = [(''Authorization'', ''Bearer '' @ CLOUDFLARE_API_TOKEN cfg),
                     (''Content-Type'', ''application/json'')],
      req_body = (if meth = ''GET'' \<or> meth = ''DELETE'' then None else data)\<rparr>"

definition reply_result :: "reply \<Rightarrow> exn + json" where
  "reply_result rep =
     (case rep of
        Decoded j \<Rightarrow>
          (case py_get j ''success'' of
             Inl e \<Rightarrow> Inl e
           | Inr success \<Rightarrow>
               if truthy success then Inr j
               else (case py_get j ''errors'' of Inl e \<Rightarrow> Inl e | Inr errors \<Rightarrow> Inl (ApiError errors)))
      | Failed m \<Rightarrow> Inl (RequestFailed m)
      | Interrupted \<Rightarrow> Inl KeyboardInterrupt)"

definition called :: "'w provider \<Rightarrow> request \<Rightarrow> 'w state \<Rightarrow> 'w state" where
  "called P req s =
     s\<lparr>world := snd (P req (world s)), trace := trace s @ [(req, fst (P req (world s)))]\<rparr>"

definition known_method :: "string \<Rightarrow> bool" where
  "known_method meth = (meth \<in> set [''GET'', ''POST'', ''PUT'', ''PATCH'', ''DELETE''])"

text \<open>The three calls the operations make, besides the \<^verbatim>\<open>PATCH\<close> of a setting.\<close>

definition listing_request :: "config \<Rightarrow> request" where
  "listing_request cfg = sent_request cfg (entrypoint cfg) ''GET'' None"

definition delete_request :: "config \<Rightarrow> request" where
  "delete_request cfg = sent_request cfg (entrypoint cfg) ''PUT'' (Some (JObj [(''rules'', JArr [])]))"

definition post_request :: "config \<Rightarrow> string \<Rightarrow> json \<Rightarrow> request" where
  "post_request cfg path rule = sent_request cfg path ''POST'' (Some rule)"

text \<open>
  What a \<^verbatim>\<open>try\<close> block of the shape ``call, print \<open>ok\<close>; on \<^verbatim>\<open>Exception\<close> print
  \<open>failed e\<close>'' prints for a reply: one line, or nothing when the reply is the keyboard
  interrupt, which such a block lets through.
\<close>

definition guard_log :: "reply \<Rightarrow> msg \<Rightarrow> (exn \<Rightarrow> msg) \<Rightarrow> msg list" where
  "guard_log rep ok failed =
     (case reply_result rep of
        Inr v \<Rightarrow> [ok]
      | Inl e \<Rightarrow> if is_Exception e then [failed e] else [])"

text \<open>
  A rule is describable when line 161 can print it, that is when
  \<^verbatim>\<open>rule["description"][:60]\<close> raises nothing; \<open>desc60\<close> is the value printed.
\<close>

definition describable :: "json \<Rightarrow> bool" where
  "describable rule =
     (case py_index rule ''description'' of
        Inl e \<Rightarrow> False
      | Inr d \<Rightarrow> (case py_slice60 d of Inl e \<Rightarrow> False | Inr d60 \<Rightarrow> True))"

definition desc60 :: "json \<Rightarrow> json" where
  "desc60 rule =
     (case py_index rule ''description'' of
        Inl e \<Rightarrow> JNull
      | Inr d \<Rightarrow> (case py_slice60 d of Inl e \<Rightarrow> JNull | Inr d60 \<Rightarrow> d60))"

text \<open>
  The lines that the loop of \<open>add_security_rules\<close> prints for a list of rules and the
  replies to their calls, \<open>i\<close> numbering the first rule: the outcome printed for a rule
  depends on the reply to its own call only.
\<close>

fun rule_log :: "nat \<Rightarrow> json list \<Rightarrow> reply list \<Rightarrow> msg list" where
  "rule_log i (rule # rules) (rep # reps) =
     AddingRule i (desc60 rule) # guard_log rep RuleSuccess RuleFailed @ rule_log (Suc i) rules reps"
| "rule_log i rules reps = []"

text \<open>
  The ruleset id that lines 153-157 make of the reply to their \<^verbatim>\<open>GET\<close>
  (\<open>JNull\<close> is \<^verbatim>\<open>None\<close>), and the \<^verbatim>\<open>result.id\<close> field of a response of
  the documented shape \<^verbatim>\<open>{success, result: {id, rules}}\<close>.
\<close>

definition resolved_id :: "reply \<Rightarrow> json" where
  "resolved_id g =
     (case reply_result g of
        Inl e \<Rightarrow> JNull
      | Inr result \<Rightarrow>
          (case py_index result ''result'' of
             Inl e \<Rightarrow> JNull
           | Inr r \<Rightarrow> (case py_index r ''id'' of Inl e \<Rightarrow> JNull | Inr v \<Rightarrow> v)))"

definition ruleset_id_of :: "json \<Rightarrow> json option" where
  "ruleset_id_of result =
     (case result of
        JObj kvs \<Rightarrow> (case map_of kvs ''result'' of Some (JObj r) \<Rightarrow> map_of r ''id'' | _ \<Rightarrow> None)
      | _ \<Rightarrow> None)"

text \<open>
  The calls that change something at the provider, the arguments that lead to each of the two
  prompts (line 221 takes \<^verbatim>\<open>--list\<close> first, line 224 \<^verbatim>\<open>--delete\<close> before
  \<^verbatim>\<open>--setup\<close>), and credentials that pass the test of line 211.
\<close>

definition mutating :: "request \<Rightarrow> bool" where
  "mutating req = (req_method req \<in> set [''POST'', ''PUT'', ''PATCH'', ''DELETE''])"

definition delete_prompt :: "string list \<Rightarrow> bool" where
  "delete_prompt args = (''--list'' \<notin> set args \<and> ''--delete'' \<in> set args)"

definition setup_prompt :: "string list \<Rightarrow> bool" where
  "setup_prompt args =
     (''--list'' \<notin> set args \<and> ''--delete'' \<notin> set args \<and> ''--setup'' \<in> set args \<and>
      ''--force'' \<notin> set args)"

definition valid_credentials :: "config \<Rightarrow> bool" where
  "valid_credentials cfg =
     (CLOUDFLARE_API_TOKEN cfg \<noteq> ''YOUR_API_TOKEN_HERE'' \<and> ZONE_ID cfg \<noteq> ''YOUR_ZONE_ID_HERE'')"

text \<open>
  A statement is quiet when all it does to the state is print, and all it can raise is an
  \<^verbatim>\<open>Exception\<close>: true of every line of the script between two HTTP calls or prompts.
\<close>

definition quiet :: "('a, 'w) prog \<Rightarrow> bool" where
  "quiet m = (\<forall>s. (\<exists>ms. snd (m s) = s\<lparr>out := out s @ ms\<rparr>) \<and> (\<forall>e. fst (m s) = Inl e \<longrightarrow> is_Exception e))"

text \<open>
  The results with which a statement of the script can end when the credentials are valid: it
  returns, or raises \<^verbatim>\<open>KeyboardInterrupt\<close>, \<^verbatim>\<open>SystemExit(0)\<close> or
  \<^verbatim>\<open>EOFError\<close>.
\<close>

definition benign :: "exn + 'a \<Rightarrow> bool" where
  "benign r = (case r of Inr x \<Rightarrow> True | Inl e \<Rightarrow> e = KeyboardInterrupt \<or> e = SystemExit 0 \<or> e = EOFError)"

definition clean :: "('a, 'w) prog \<Rightarrow> bool" where
  "clean m = (\<forall>s. benign (fst (m s)))"

section \<open>The request helper\<close>

lemmas prog_defs = ret_def py_raise_def lift_def andthen_def try_except_def py_print_def sys_exit_def

lemma make_request_known:
  assumes "known_method meth"
  shows "make_request cfg P endpoint meth data s =
           (reply_result (fst (P (sent_request cfg endpoint meth data) (world s))),
            called P (sent_request cfg endpoint meth data) s)"
proof -
  obtain rep w' where pr: "P (sent_request cfg endpoint meth data) (world s) = (rep, w')"
    by (cases "P (sent_request cfg endpoint meth data) (world s)")
  from assms consider "meth = ''GET''" | "meth = ''POST''" | "meth = ''PUT''" | "meth = ''PATCH''" | "meth = ''DELETE''"
    by (auto simp: known_method_def)
  then show ?thesis
  proof cases
    case 1
    with pr show ?thesis
      by (cases rep; cases "py_get (case rep of Decoded j \<Rightarrow> j | _ \<Rightarrow> JNull) ''success''")
         (auto simp: make_request_def sent_request_def reply_result_def called_def http_call_def prog_defs
               split: sum.splits)
  next
    case 2
    with pr show ?thesis
      by (cases rep)
         (auto simp: make_request_def sent_request_def reply_result_def called_def http_call_def prog_defs
               split: sum.splits)
  next
    case 3
    with pr show ?thesis
      by (cases rep)
         (auto simp: make_request_def sent_request_def reply_result_def called_def http_call_def prog_defs
               split: sum.splits)
  next
    case 4
    with pr show ?thesis
      by (cases rep)
         (auto simp: make_request_def sent_request_def reply_result_def called_def http_call_def prog_defs
               split: sum.splits)
  next
    case 5
    with pr show ?thesis
      by (cases rep)
         (auto simp: make_request_def sent_request_def reply_result_def called_def http_call_def prog_defs
               split: sum.splits)
  qed
qed

text \<open>
  C3. For every endpoint and body and each of the five methods: when the provider answers the
  call with a JSON object whose \<^verbatim>\<open>success\<close> field is a boolean or absent, the helper
  returns that decoded object exactly when \<^verbatim>\<open>success\<close> is true; otherwise it raises the
  API error carrying the value of the \<^verbatim>\<open>errors\<close> field (\<open>JNull\<close>, Python's
  \<^verbatim>\<open>None\<close>, when there is none) and returns no result. Either way exactly this one
  call is added to the trace.
\<close>

theorem make_request_success_iff:
  assumes "known_method meth"
    and "P (sent_request cfg endpoint meth data) (world s) = (Decoded (JObj kvs), w')"
    and "map_of kvs ''success'' = None \<or> map_of kvs ''success'' = Some (JBool b)"
  shows "make_request cfg P endpoint meth data s =
           (if map_of kvs ''success'' = Some (JBool True) then Inr (JObj kvs)
            else Inl (ApiError (case map_of kvs ''errors'' of None \<Rightarrow> JNull | Some errors \<Rightarrow> errors)),
            s\<lparr>world := w',
              trace := trace s @ [(sent_request cfg endpoint meth data, Decoded (JObj kvs))]\<rparr>)"
  using assms(2,3)
  by (auto simp: make_request_known [OF assms(1)] reply_result_def called_def py_get_def)

text \<open>The helper on a failed \<^verbatim>\<open>PATCH\<close>: the error carries the provider's list.\<close>

theorem make_request_success_iff_witness:
  "make_request \<lparr>CLOUDFLARE_API_TOKEN = ''t0'', ZONE_ID = ''z1''\<rparr> scripted ''/zones/z1/settings/tls_1_3''
       ''PATCH'' (Some (JObj [(''value'', JStr ''on'')]))
       (init [Decoded (JObj [(''success'', JBool False),
                             (''errors'', JArr [JObj [(''code'', JNum 10000)]])])] []) =
     (Inl (ApiError (JArr [JObj [(''code'', JNum 10000)]])),
      \<lparr>world = [],
       trace = [(\<lparr>req_method = ''PATCH'',
                  req_url = ''https://api.cloudflare.com/client/v4/zones/z1/settings/tls_1_3'',
                  req_headers = [(''Authorization'', ''Bearer t0''), (''Content-Type'', ''application/json'')],
                  req_body = Some (JObj [(''value'', JStr ''on'')])\<rparr>,
                 Decoded (JObj [(''success'', JBool False),
                                (''errors'', JArr [JObj [(''code'', JNum 10000)]])]))],
       out = [], stdin = []\<rparr>)"
  using make_request_success_iff [of "''PATCH''" scripted
      "\<lparr>CLOUDFLARE_API_TOKEN = ''t0'', ZONE_ID = ''z1''\<rparr>" "''/zones/z1/settings/tls_1_3''"
      "Some (JObj [(''value'', JStr ''on'')])"
      "init [Decoded (JObj [(''success'', JBool False),
                             (''errors'', JArr [JObj [(''code'', JNum 10000)]])])] []"
      "[(''success'', JBool False), (''errors'', JArr [JObj [(''code'', JNum 10000)]])]"
      "[]" False]
  by (simp add: known_method_def sent_request_def scripted_def init_def API_BASE_def)

section \<open>Statements that only print\<close>

lemma quiet_ret: "quiet (ret x)"
  by (auto simp: quiet_def ret_def intro: exI [where x = "[]"])

lemma quiet_print: "quiet (py_print m)"
  by (auto simp: quiet_def py_print_def)

lemma quiet_lift: "(\<And>e. r = Inl e \<Longrightarrow> is_Exception e) \<Longrightarrow> quiet (lift r)"
  by (auto simp: quiet_def lift_def intro: exI [where x = "[]"])

lemma quiet_andthen:
  assumes "quiet m" and "\<And>x. quiet (f x)"
  shows "quiet (andthen m f)"
proof -
  have "(\<exists>ms. snd (andthen m f s) = s\<lparr>out := out s @ ms\<rparr>) \<and>
        (\<forall>e. fst (andthen m f s) = Inl e \<longrightarrow> is_Exception e)" for s
  proof -
    obtain r s1 where ms: "m s = (r, s1)" by (cases "m s")
    from assms(1) ms obtain ms1 where s1: "s1 = s\<lparr>out := out s @ ms1\<rparr>"
      and e1: "\<And>e. r = Inl e \<Longrightarrow> is_Exception e"
      by (auto simp: quiet_def dest!: spec [where x = s])
    show ?thesis
    proof (cases r)
      case (Inl e)
      with ms s1 e1 show ?thesis by (auto simp: andthen_def)
    next
      case (Inr x)
      from assms(2) [of x] obtain ms2 where s2: "snd (f x s1) = s1\<lparr>out := out s1 @ ms2\<rparr>"
        and e2: "\<And>e. fst (f x s1) = Inl e \<Longrightarrow> is_Exception e"
        by (auto simp: quiet_def dest!: spec [where x = s1])
      from s2 Inr ms s1 have "snd (andthen m f s) = s\<lparr>out := out s @ (ms1 @ ms2)\<rparr>"
        by (simp add: andthen_def)
      moreover from e2 Inr ms have "\<forall>e. fst (andthen m f s) = Inl e \<longrightarrow> is_Exception e"
        by (simp add: andthen_def)
      ultimately show ?thesis by blast
    qed
  qed
  then show ?thesis unfolding quiet_def by blast
qed

lemma py_get_default_raises: "py_get_default v k d = Inl e \<Longrightarrow> is_Exception e"
  by (cases v) auto

lemma py_get_raises: "py_get v k = Inl e \<Longrightarrow> is_Exception e"
  by (auto simp: py_get_def dest: py_get_default_raises)

lemma py_index_raises: "py_index v k = Inl e \<Longrightarrow> is_Exception e"
  by (cases v) (auto split: option.splits)

lemma py_len_raises: "py_len v = Inl e \<Longrightarrow> is_Exception e"
  by (cases v) auto

lemma py_iter_raises: "py_iter v = Inl e \<Longrightarrow> is_Exception e"
  by (cases v) auto

lemma py_slice60_raises: "py_slice60 v = Inl e \<Longrightarrow> is_Exception e"
  by (cases v) auto

lemma quiet_lifts:
  "quiet (lift (py_get_default v k d))"
  "quiet (lift (py_get v k))"
  "quiet (lift (py_index v k))"
  "quiet (lift (py_len v))"
  "quiet (lift (py_iter v))"
  "quiet (lift (py_slice60 v))"
  by (auto intro!: quiet_lift
      dest: py_get_default_raises py_get_raises py_index_raises py_len_raises py_iter_raises
        py_slice60_raises)

lemmas quiet_intros = quiet_ret quiet_print quiet_andthen quiet_lifts

lemma quiet_show_rules: "quiet (show_rules i rules)"
  by (induction rules arbitrary: i) (auto intro!: quiet_intros)

lemma reply_result_raises:
  "reply_result rep = Inl e \<Longrightarrow> rep \<noteq> Interrupted \<Longrightarrow> is_Exception e"
  by (cases rep) (auto simp: reply_result_def dest: py_get_raises split: sum.splits if_splits)

lemma reply_result_Interrupted [simp]: "reply_result Interrupted = Inl KeyboardInterrupt"
  by (simp add: reply_result_def)

text \<open>try: make_request(...); k   except Exception as e: h e\<close>

lemma guarded_call:
  fixes k :: "json \<Rightarrow> (unit, 'w) prog"
  assumes meth: "known_method meth"
    and k: "\<And>x. quiet (k x)"
    and h: "\<And>e s. \<exists>ms. h e s = (Inr (), s\<lparr>out := out s @ ms\<rparr>)"
  shows "\<exists>ms. try_except (andthen (make_request cfg P endpoint meth data) k) is_Exception h s =
           (if fst (P (sent_request cfg endpoint meth data) (world s)) = Interrupted
            then Inl KeyboardInterrupt else Inr (),
            (called P (sent_request cfg endpoint meth data) s)\<lparr>out := out s @ ms\<rparr>)"
proof -
  let ?req = "sent_request cfg endpoint meth data"
  let ?rep = "fst (P ?req (world s))"
  let ?s1 = "called P ?req s"
  have out1: "out ?s1 = out s" by (simp add: called_def)
  have mr: "make_request cfg P endpoint meth data s = (reply_result ?rep, ?s1)"
    by (rule make_request_known [OF meth])
  show ?thesis
  proof (cases "reply_result ?rep")
    case (Inl e)
    show ?thesis
    proof (cases "?rep = Interrupted")
      case True
      with Inl mr have "try_except (andthen (make_request cfg P endpoint meth data) k) is_Exception h s =
          (Inl KeyboardInterrupt, ?s1\<lparr>out := out s @ []\<rparr>)"
        by (simp add: try_except_def andthen_def out1 [symmetric])
      with True show ?thesis by (intro exI [where x = "[]"]) simp
    next
      case False
      with Inl have ex: "is_Exception e" by (rule reply_result_raises)
      from h [of e ?s1] obtain ms where "h e ?s1 = (Inr (), ?s1\<lparr>out := out s @ ms\<rparr>)"
        by (auto simp: out1)
      with Inl mr ex False show ?thesis
        by (auto simp: try_except_def andthen_def)
    qed
  next
    case (Inr x)
    then have ni: "?rep \<noteq> Interrupted" by auto
    obtain r s2 where ks: "k x ?s1 = (r, s2)" by (cases "k x ?s1")
    from k [of x] ks obtain ms where s2: "s2 = ?s1\<lparr>out := out s @ ms\<rparr>"
      and e2: "\<And>e. r = Inl e \<Longrightarrow> is_Exception e"
      by (auto simp: quiet_def out1 dest!: spec [where x = ?s1])
    show ?thesis
    proof (cases r)
      case (Inl e)
      from h [of e s2] obtain ms' where "h e s2 = (Inr (), s2\<lparr>out := out s2 @ ms'\<rparr>)"
        by auto
      with s2 have "h e s2 = (Inr (), ?s1\<lparr>out := out s @ (ms @ ms')\<rparr>)" by simp
      with Inl e2 Inr mr ks ni show ?thesis
        by (auto simp: try_except_def andthen_def)
    next
      case Inr' : (Inr u)
      with Inr mr ks ni s2 show ?thesis
        by (auto simp: try_except_def andthen_def)
    qed
  qed
qed

section \<open>Placeholder credentials\<close>

text \<open>
  C2. When the API token or the zone id still is its placeholder, the run ends with exit
  status 1 whatever the arguments, the provider and the input are, and all it has done is
  print the banner and the instructions: the trace of HTTP calls and the provider's state
  are those it started with.
\<close>

theorem placeholder_credentials_exit:
  assumes "CLOUDFLARE_API_TOKEN cfg = ''YOUR_API_TOKEN_HERE'' \<or> ZONE_ID cfg = ''YOUR_ZONE_ID_HERE''"
  shows "run cfg P fmt args s = (1, s\<lparr>out := out s @ [Banner, ConfigError]\<rparr>)"
  using assms by (auto simp: run_def main_def prog_defs)

text \<open>The script as shipped, asked to set up with \<^verbatim>\<open>--force\<close>.\<close>

theorem placeholder_credentials_exit_witness:
  "run \<lparr>CLOUDFLARE_API_TOKEN = ''YOUR_API_TOKEN_HERE'', ZONE_ID = ''YOUR_ZONE_ID_HERE''\<rparr>
       scripted (\<lambda>v. []) [''--setup'', ''--force''] (init [] []) =
     (1, \<lparr>world = [], trace = [], out = [Banner, ConfigError], stdin = []\<rparr>)"
  using placeholder_credentials_exit
    [of "\<lparr>CLOUDFLARE_API_TOKEN = ''YOUR_API_TOKEN_HERE'', ZONE_ID = ''YOUR_ZONE_ID_HERE''\<rparr>"
        scripted "\<lambda>v. []" "[''--setup'', ''--force'']" "init [] []"]
  by (simp add: init_def)

section \<open>What each operation does to the state\<close>

lemma called_simps [simp]:
  "world (called P req s) = snd (P req (world s))"
  "trace (called P req s) = trace s @ [(req, fst (P req (world s)))]"
  "out (called P req s) = out s"
  "stdin (called P req s) = stdin s"
  by (simp_all add: called_def)

lemma called_out_update:
  "called P req (s\<lparr>out := ms\<rparr>) = (called P req s)\<lparr>out := ms\<rparr>"
  by (simp add: called_def)

lemma known_methods [simp]:
  "known_method ''GET''" "known_method ''POST''" "known_method ''PUT''" "known_method ''PATCH''"
  by (simp_all add: known_method_def)

lemma guarded_print:
  assumes meth: "known_method meth"
  shows "try_except (andthen (make_request cfg P endpoint meth data) (\<lambda>v. py_print ok))
           is_Exception (\<lambda>e. py_print (failed e)) s =
         (if fst (P (sent_request cfg endpoint meth data) (world s)) = Interrupted
          then Inl KeyboardInterrupt else Inr (),
          (called P (sent_request cfg endpoint meth data) s)
            \<lparr>out := out s @ guard_log (fst (P (sent_request cfg endpoint meth data) (world s))) ok failed\<rparr>)"
proof -
  let ?rep = "fst (P (sent_request cfg endpoint meth data) (world s))"
  show ?thesis
  proof (cases "reply_result ?rep")
    case (Inl e)
    show ?thesis
    proof (cases "?rep = Interrupted")
      case True
      then show ?thesis
        by (simp add: try_except_def andthen_def make_request_known [OF meth] guard_log_def)
    next
      case False
      with Inl have "is_Exception e" by (rule reply_result_raises)
      with Inl False show ?thesis
        by (simp add: try_except_def andthen_def make_request_known [OF meth] guard_log_def py_print_def)
    qed
  next
    case (Inr v)
    then have "?rep \<noteq> Interrupted" by auto
    with Inr show ?thesis
      by (simp add: try_except_def andthen_def make_request_known [OF meth] guard_log_def py_print_def)
  qed
qed

lemma quiet_list_tail: "quiet (\<lambda>s. andthen
     (lift (py_get result ''result'')) (\<lambda>r.
     andthen (if \<not> truthy r then ret False
              else andthen (lift (py_index result ''result'')) (\<lambda>r'.
                   andthen (lift (py_get r' ''rules'')) (\<lambda>rs. ret (truthy rs)))) (\<lambda>has_rules.
     if has_rules then
       andthen (lift (py_index result ''result'')) (\<lambda>r'.
       andthen (lift (py_index r' ''rules'')) (\<lambda>rules.
       andthen (lift (py_len rules)) (\<lambda>n.
       andthen (py_print (FoundRules n)) (\<lambda>_.
       andthen (lift (py_iter rules)) (\<lambda>items.
       show_rules 1 items)))))
     else py_print NoRulesFound)) s)"
  by (auto intro!: quiet_intros quiet_show_rules)

lemma print_handler: "\<exists>ms. py_print m s = (Inr (), s\<lparr>out := out s @ ms\<rparr>)"
  by (auto simp: py_print_def)

text \<open>
  Listing makes exactly one call, the \<^verbatim>\<open>GET\<close> of the entrypoint, and whatever the reply
  it returns normally; only a keyboard interrupt during the call gets out.
\<close>

lemma list_existing_rules_effect:
  "\<exists>ms. list_existing_rules cfg P s =
     (if fst (P (listing_request cfg) (world s)) = Interrupted then Inl KeyboardInterrupt else Inr (),
      (called P (listing_request cfg) s)\<lparr>out := out s @ ms\<rparr>)"
proof -
  let ?s0 = "s\<lparr>out := out s @ [ListingHeader]\<rparr>"
  have "\<exists>ms. try_except (list_rules_body cfg P) is_Exception (\<lambda>e. py_print (ListFailed e)) ?s0 =
     (if fst (P (sent_request cfg (entrypoint cfg) ''GET'' None) (world ?s0)) = Interrupted
      then Inl KeyboardInterrupt else Inr (),
      (called P (sent_request cfg (entrypoint cfg) ''GET'' None) ?s0)\<lparr>out := out ?s0 @ ms\<rparr>)"
    unfolding list_rules_body_def
    by (rule guarded_call) (simp_all add: quiet_list_tail print_handler)
  then obtain ms where "try_except (list_rules_body cfg P) is_Exception (\<lambda>e. py_print (ListFailed e)) ?s0 =
     (if fst (P (listing_request cfg) (world s)) = Interrupted then Inl KeyboardInterrupt else Inr (),
      (called P (listing_request cfg) s)\<lparr>out := out s @ (ListingHeader # ms)\<rparr>)"
    by (auto simp: listing_request_def called_out_update)
  then have "list_existing_rules cfg P s =
     (if fst (P (listing_request cfg) (world s)) = Interrupted then Inl KeyboardInterrupt else Inr (),
      (called P (listing_request cfg) s)\<lparr>out := out s @ (ListingHeader # ms)\<rparr>)"
    by (simp add: list_existing_rules_def andthen_def py_print_def)
  then show ?thesis by blast
qed

lemma delete_all_rules_effect:
  "delete_all_rules cfg P s =
     (if fst (P (delete_request cfg) (world s)) = Interrupted then Inl KeyboardInterrupt else Inr (),
      (called P (delete_request cfg) s)
        \<lparr>out := out s @ DeletingHeader #
            guard_log (fst (P (delete_request cfg) (world s))) AllDeleted DeleteFailed\<rparr>)"
  by (simp add: delete_all_rules_def andthen_def py_print_def
      guarded_print delete_request_def called_out_update)

lemma try_lift_Inr: "try_except (andthen (lift (Inr x)) f) c h = try_except (f x) c h"
  by (rule ext) (simp add: try_except_def andthen_def lift_def)

lemma try_print:
  "try_except (andthen (py_print m) f) c h s = try_except (f ()) c h (s\<lparr>out := out s @ [m]\<rparr>)"
  by (simp add: try_except_def andthen_def py_print_def)

lemma add_rule_effect:
  assumes "describable rule"
  shows "add_rule cfg P fmt rid i rule s =
     (if fst (P (post_request cfg (rules_path cfg fmt rid) rule) (world s)) = Interrupted
      then Inl KeyboardInterrupt else Inr (),
      (called P (post_request cfg (rules_path cfg fmt rid) rule) s)
        \<lparr>out := out s @ AddingRule i (desc60 rule) #
            guard_log (fst (P (post_request cfg (rules_path cfg fmt rid) rule) (world s)))
              RuleSuccess RuleFailed\<rparr>)"
proof -
  from assms obtain d d60 where d: "py_index rule ''description'' = Inr d" "py_slice60 d = Inr d60"
    by (auto simp: describable_def split: sum.splits)
  then have "desc60 rule = d60" by (simp add: desc60_def)
  with d show ?thesis
    by (simp add: add_rule_def try_lift_Inr try_print guarded_print post_request_def called_out_update)
qed

lemma add_rules_loop_effect:
  assumes "\<forall>rule\<in>set rules. describable rule"
  shows "\<exists>reps s'.
     add_rules_loop cfg P fmt rid i rules s =
       (if Interrupted \<in> set reps then Inl KeyboardInterrupt else Inr (), s') \<and>
     trace s' = trace s @ zip (map (post_request cfg (rules_path cfg fmt rid)) rules) reps \<and>
     length reps \<le> length rules \<and>
     (Interrupted \<notin> set reps \<longrightarrow> length reps = length rules) \<and>
     (rules \<noteq> [] \<longrightarrow> reps \<noteq> []) \<and>
     stdin s' = stdin s"
  using assms
proof (induction rules arbitrary: i s)
  case Nil
  show ?case by (intro exI [where x = "[]"] exI [where x = s]) (simp add: ret_def)
next
  case (Cons rule rules)
  let ?req = "post_request cfg (rules_path cfg fmt rid) rule"
  let ?rep = "fst (P ?req (world s))"
  let ?s1 = "(called P ?req s)\<lparr>out := out s @ AddingRule i (desc60 rule) #
                guard_log ?rep RuleSuccess RuleFailed\<rparr>"
  from Cons.prems have d: "describable rule" and ds: "\<forall>r\<in>set rules. describable r" by simp_all
  note step = add_rule_effect [OF d, where cfg = cfg and P = P and fmt = fmt and rid = rid and i = i and s = s]
  show ?case
  proof (cases "?rep = Interrupted")
    case True
    with step show ?thesis
      by (intro exI [where x = "[?rep]"] exI [where x = ?s1]) (simp add: andthen_def)
  next
    case False
    from Cons.IH [OF ds, where i = "Suc i" and s = ?s1] obtain reps s' where
      loop: "add_rules_loop cfg P fmt rid (Suc i) rules ?s1 =
               (if Interrupted \<in> set reps then Inl KeyboardInterrupt else Inr (), s')"
      and tr: "trace s' = trace ?s1 @ zip (map (post_request cfg (rules_path cfg fmt rid)) rules) reps"
      and len: "length reps \<le> length rules" "Interrupted \<notin> set reps \<longrightarrow> length reps = length rules"
      and inp: "stdin s' = stdin ?s1"
      by blast
    with step False show ?thesis
      by (intro exI [where x = "?rep # reps"] exI [where x = s']) (simp add: andthen_def)
  qed
qed

lemma add_rules_loop_scripted:
  assumes "\<forall>rule\<in>set rules. describable rule"
    and "length reps = length rules" and "Interrupted \<notin> set reps"
  shows "add_rules_loop cfg scripted fmt rid i rules (s\<lparr>world := reps @ rest\<rparr>) =
     (Inr (),
      s\<lparr>world := rest,
        trace := trace s @ zip (map (post_request cfg (rules_path cfg fmt rid)) rules) reps,
        out := out s @ rule_log i rules reps\<rparr>)"
  using assms
proof (induction rules arbitrary: i s reps)
  case Nil
  then show ?case by (simp add: ret_def)
next
  case (Cons rule rules)
  from Cons.prems obtain rep reps' where reps: "reps = rep # reps'"
    by (cases reps) auto
  with Cons.prems have d: "describable rule" and ds: "\<forall>r\<in>set rules. describable r"
    and len: "length reps' = length rules" and ni: "rep \<noteq> Interrupted" "Interrupted \<notin> set reps'"
    by auto
  let ?req = "post_request cfg (rules_path cfg fmt rid) rule"
  let ?s1 = "s\<lparr>trace := trace s @ [(?req, rep)],
               out := out s @ AddingRule i (desc60 rule) # guard_log rep RuleSuccess RuleFailed\<rparr>"
  have step: "add_rule cfg scripted fmt rid i rule (s\<lparr>world := rep # reps' @ rest\<rparr>) =
                (Inr (), ?s1\<lparr>world := reps' @ rest\<rparr>)"
    using ni by (simp add: add_rule_effect [OF d] scripted_def called_def)
  from Cons.IH [OF ds len ni(2), where i = "Suc i" and s = ?s1]
  show ?case by (simp add: step andthen_def reps)
qed

lemma get_ruleset_id_effect:
  "get_ruleset_id cfg P s =
     (Inr (resolved_id (fst (P (listing_request cfg) (world s)))), called P (listing_request cfg) s)"
  by (simp add: get_ruleset_id_def try_except_def andthen_def lift_def ret_def make_request_known
      resolved_id_def listing_request_def split: sum.splits)

lemma rules_describable: "\<forall>rule\<in>set SECURITY_RULES. describable rule"
  by (simp add: SECURITY_RULES_def describable_def rule_1_def rule_2_def rule_3_def rule_4_def
      rule_5_def)

lemma add_security_rules_effect:
  "\<exists>reps s'.
     add_security_rules cfg P fmt s =
       (if Interrupted \<in> set reps then Inl KeyboardInterrupt else Inr (), s') \<and>
     trace s' = trace s @ (listing_request cfg, fst (P (listing_request cfg) (world s))) #
       zip (map (post_request cfg
                   (rules_path cfg fmt (resolved_id (fst (P (listing_request cfg) (world s))))))
              SECURITY_RULES) reps \<and>
     reps \<noteq> [] \<and> length reps \<le> 5 \<and>
     (Interrupted \<notin> set reps \<longrightarrow> length reps = 5) \<and>
     stdin s' = stdin s"
proof -
  let ?g = "fst (P (listing_request cfg) (world s))"
  let ?s1 = "(called P (listing_request cfg) s)\<lparr>out := out s @ [AddingHeader]\<rparr>"
  from add_rules_loop_effect [OF rules_describable,
      where cfg = cfg and P = P and fmt = fmt and rid = "resolved_id ?g" and i = 1 and s = ?s1]
  obtain reps s2 where
    loop: "add_rules_loop cfg P fmt (resolved_id ?g) 1 SECURITY_RULES ?s1 =
             (if Interrupted \<in> set reps then Inl KeyboardInterrupt else Inr (), s2)"
    and tr: "trace s2 = trace ?s1 @
               zip (map (post_request cfg (rules_path cfg fmt (resolved_id ?g))) SECURITY_RULES) reps"
    and len: "length reps \<le> length SECURITY_RULES"
             "Interrupted \<notin> set reps \<longrightarrow> length reps = length SECURITY_RULES"
             "SECURITY_RULES \<noteq> [] \<longrightarrow> reps \<noteq> []"
    and inp: "stdin s2 = stdin ?s1"
    by blast
  have n: "length SECURITY_RULES = 5" "SECURITY_RULES \<noteq> []" by (simp_all add: SECURITY_RULES_def)
  let ?s' = "if Interrupted \<in> set reps then s2 else s2\<lparr>out := out s2 @ [AllAdded]\<rparr>"
  have "add_security_rules cfg P fmt s =
          (if Interrupted \<in> set reps then Inl KeyboardInterrupt else Inr (), ?s')"
    using loop
    by (simp add: add_security_rules_def andthen_def py_print_def get_ruleset_id_effect
        called_out_update)
  moreover have "trace ?s' = trace s @ (listing_request cfg, ?g) #
       zip (map (post_request cfg (rules_path cfg fmt (resolved_id ?g))) SECURITY_RULES) reps"
    using tr by simp
  moreover have "stdin ?s' = stdin s" using inp by simp
  ultimately show ?thesis using len n by (intro exI [where x = reps] exI [where x = ?s']) simp
qed

lemma add_security_rules_scripted:
  assumes "length reps = 5" and "Interrupted \<notin> set reps"
  shows "add_security_rules cfg scripted fmt (s\<lparr>world := g # reps @ rest\<rparr>) =
     (Inr (),
      s\<lparr>world := rest,
        trace := trace s @ (listing_request cfg, g) #
          zip (map (post_request cfg (rules_path cfg fmt (resolved_id g))) SECURITY_RULES) reps,
        out := out s @ AddingHeader # rule_log 1 SECURITY_RULES reps @ [AllAdded]\<rparr>)"
proof -
  have n: "length reps = length SECURITY_RULES" using assms(1) by (simp add: SECURITY_RULES_def)
  let ?s1 = "s\<lparr>trace := trace s @ [(listing_request cfg, g)], out := out s @ [AddingHeader]\<rparr>"
  have id: "get_ruleset_id cfg scripted (s\<lparr>world := g # reps @ rest, out := out s @ [AddingHeader]\<rparr>) =
              (Inr (resolved_id g), ?s1\<lparr>world := reps @ rest\<rparr>)"
    by (simp add: get_ruleset_id_effect scripted_def called_def)
  from add_rules_loop_scripted [OF rules_describable n assms(2),
      where cfg = cfg and fmt = fmt and rid = "resolved_id g" and i = 1 and s = ?s1 and rest = rest]
  show ?thesis
    by (simp add: add_security_rules_def andthen_def py_print_def id)
qed

lemma resolved_id_cases:
  "resolved_id g =
     (case reply_result g of
        Inl e \<Rightarrow> JNull
      | Inr result \<Rightarrow> (case ruleset_id_of result of None \<Rightarrow> JNull | Some v \<Rightarrow> v))"
proof (cases "reply_result g")
  case (Inl e)
  then show ?thesis by (simp add: resolved_id_def)
next
  case (Inr result)
  show ?thesis
  proof (cases result)
    case (JObj kvs)
    show ?thesis
    proof (cases "map_of kvs ''result''")
      case None
      with Inr JObj show ?thesis by (simp add: resolved_id_def ruleset_id_of_def)
    next
      case (Some r)
      with Inr JObj show ?thesis
        by (cases r) (simp_all add: resolved_id_def ruleset_id_of_def split: option.splits)
    qed
  qed (simp_all add: Inr resolved_id_def ruleset_id_of_def)
qed

section \<open>Adding the rules\<close>

text \<open>
  C4. Let the provider answer the calls of \<open>add_security_rules\<close> with any reply \<open>g\<close> to
  the \<^verbatim>\<open>GET\<close> and any five replies to the five \<^verbatim>\<open>POST\<close>s, none of them a keyboard
  interrupt. Then the operation returns normally, it has made exactly six calls, the
  \<^verbatim>\<open>GET\<close> and one \<^verbatim>\<open>POST\<close> per rule in table order whatever the earlier replies
  were (nothing is undone: no other call is made), and it has printed for each rule its
  announcement followed by the success line or, for a failed call, the failure line with
  the error of that call.
\<close>

theorem add_security_rules_independent:
  assumes "length reps = 5" and "Interrupted \<notin> set reps"
  shows "add_security_rules cfg scripted fmt (s\<lparr>world := g # reps @ rest\<rparr>) =
     (Inr (),
      s\<lparr>world := rest,
        trace := trace s @ (listing_request cfg, g) #
          zip (map (post_request cfg (rules_path cfg fmt (resolved_id g))) SECURITY_RULES) reps,
        out := out s @ AddingHeader # rule_log 1 SECURITY_RULES reps @ [AllAdded]\<rparr>)"
  using assms by (rule add_security_rules_scripted)

text \<open>Rule 3 is refused by the provider and the call for rule 4 fails in the transport:
  rules 4 and 5 are still submitted, and both failures are printed.\<close>

theorem add_security_rules_independent_witness:
  "add_security_rules \<lparr>CLOUDFLARE_API_TOKEN = ''t0'', ZONE_ID = ''z1''\<rparr> scripted (\<lambda>v. [])
     (init [Failed ''timeout'',
            Decoded (JObj [(''success'', JBool True)]),
            Decoded (JObj [(''success'', JBool True)]),
            Decoded (JObj [(''success'', JBool False), (''errors'', JArr [JStr ''limit''])]),
            Failed ''reset'',
            Decoded (JObj [(''success'', JBool True)])] []) =
   (Inr (),
    \<lparr>world = [],
     trace = (listing_request \<lparr>CLOUDFLARE_API_TOKEN = ''t0'', ZONE_ID = ''z1''\<rparr>, Failed ''timeout'') #
       zip (map (post_request \<lparr>CLOUDFLARE_API_TOKEN = ''t0'', ZONE_ID = ''z1''\<rparr>
                   ''/zones/z1/rulesets/phases/http_request_firewall_custom/entrypoint'')
              [rule_1, rule_2, rule_3, rule_4, rule_5])
           [Decoded (JObj [(''success'', JBool True)]),
            Decoded (JObj [(''success'', JBool True)]),
            Decoded (JObj [(''success'', JBool False), (''errors'', JArr [JStr ''limit''])]),
            Failed ''reset'',
            Decoded (JObj [(''success'', JBool True)])],
     out = [AddingHeader,
            AddingRule 1 (JStr ''Block AI bots, scrapers, and malicious user agents to protec''),
            RuleSuccess,
            AddingRule 2 (JStr ''Protect admin panel, auth endpoints, and challenge high thre''),
            RuleSuccess,
            AddingRule 3 (JStr ''Block SQL injection, XSS attacks, and malicious file upload ''),
            RuleFailed (ApiError (JArr [JStr ''limit''])),
            AddingRule 4 (JStr ''Block signups from high-risk countries while allowing read a''),
            RuleFailed (RequestFailed ''reset''),
            AddingRule 5 (JStr ''Whitelist your development IP and trusted services (UPDATE W''),
            RuleSuccess,
            AllAdded],
     stdin = []\<rparr>)"
  using add_security_rules_independent
    [where reps = "[Decoded (JObj [(''success'', JBool True)]),
            Decoded (JObj [(''success'', JBool True)]),
            Decoded (JObj [(''success'', JBool False), (''errors'', JArr [JStr ''limit''])]),
            Failed ''reset'',
            Decoded (JObj [(''success'', JBool True)])]"
       and cfg = "\<lparr>CLOUDFLARE_API_TOKEN = ''t0'', ZONE_ID = ''z1''\<rparr>" and fmt = "\<lambda>v. []"
       and s = "init [] []" and g = "Failed ''timeout''" and rest = "[]"]
  by (simp add: init_def SECURITY_RULES_def resolved_id_def reply_result_def rules_path_def
      entrypoint_def guard_log_def py_get_def desc60_def
      rule_1_def rule_2_def rule_3_def rule_4_def rule_5_def)

text \<open>
  C5. Whatever the provider does, the calls that \<open>add_security_rules\<close> adds to the trace
  are one \<^verbatim>\<open>GET\<close> followed by \<^verbatim>\<open>POST\<close>s whose bodies are the rules of the table
  \<open>SECURITY_RULES\<close>, one rule per call, in the order of the table from its first rule on;
  when the operation returns normally there are five of them, so the submitted bodies are
  the whole table in its order, rule 1 first and rule 5 last. (Only a keyboard interrupt
  during a \<^verbatim>\<open>POST\<close> ends the loop early.)
\<close>

theorem add_security_rules_in_table_order:
  assumes "add_security_rules cfg P fmt s = (r, s')"
  shows "SECURITY_RULES = [rule_1, rule_2, rule_3, rule_4, rule_5] \<and>
    (\<exists>g posts.
       trace s' = trace s @ g # posts \<and>
       req_method (fst g) = ''GET'' \<and>
       map (\<lambda>p. (req_method (fst p), req_body (fst p))) posts =
         take (length posts) (map (\<lambda>rule. (''POST'', Some rule)) SECURITY_RULES) \<and>
       posts \<noteq> [] \<and>
       (r = Inr () \<longrightarrow> length posts = 5))"
proof -
  let ?g = "fst (P (listing_request cfg) (world s))"
  let ?path = "rules_path cfg fmt (resolved_id ?g)"
  from add_security_rules_effect [of cfg P fmt s] assms obtain reps where
    r: "r = (if Interrupted \<in> set reps then Inl KeyboardInterrupt else Inr ())"
    and tr: "trace s' = trace s @ (listing_request cfg, ?g) #
               zip (map (post_request cfg ?path) SECURITY_RULES) reps"
    and len: "reps \<noteq> []" "length reps \<le> 5" "Interrupted \<notin> set reps \<longrightarrow> length reps = 5"
    by auto
  let ?posts = "zip (map (post_request cfg ?path) SECURITY_RULES) reps"
  have n: "length SECURITY_RULES = 5" by (simp add: SECURITY_RULES_def)
  have "map (\<lambda>p. (req_method (fst p), req_body (fst p))) ?posts =
          map (\<lambda>rule. (''POST'', Some rule)) (take (length reps) SECURITY_RULES)"
    using len(2) n
    by (simp add: map_fst_zip_take zip_map1 post_request_def sent_request_def
        map_zip_map list_eq_iff_nth_eq)
  moreover have "length ?posts = length reps" using len(2) n by simp
  moreover have "?posts \<noteq> []" using len(1) n by (cases reps; cases SECURITY_RULES) auto
  moreover have "r = Inr () \<longrightarrow> length reps = 5" using r len(3) by (auto split: if_splits)
  ultimately show ?thesis using tr
    by (intro conjI exI [where x = "(listing_request cfg, ?g)"] exI [where x = ?posts])
       (simp_all add: SECURITY_RULES_def [symmetric] take_map listing_request_def sent_request_def,
        simp add: SECURITY_RULES_def)
qed

text \<open>Six successful replies: the bodies sent are the table.\<close>

theorem add_security_rules_in_table_order_witness:
  "map (\<lambda>p. (req_method (fst p), req_body (fst p)))
     (trace (snd (add_security_rules \<lparr>CLOUDFLARE_API_TOKEN = ''t0'', ZONE_ID = ''z1''\<rparr> scripted (\<lambda>v. [])
        (init (replicate 6 (Decoded (JObj [(''success'', JBool True)]))) [])))) =
   [(''GET'', None), (''POST'', Some rule_1), (''POST'', Some rule_2), (''POST'', Some rule_3),
    (''POST'', Some rule_4), (''POST'', Some rule_5)]"
  using add_security_rules_in_table_order
    [where cfg = "\<lparr>CLOUDFLARE_API_TOKEN = ''t0'', ZONE_ID = ''z1''\<rparr>" and P = scripted
       and fmt = "\<lambda>v. []" and s = "init (replicate 6 (Decoded (JObj [(''success'', JBool True)]))) []"
       and r = "Inr ()"]
    add_security_rules_scripted
    [where reps = "replicate 5 (Decoded (JObj [(''success'', JBool True)]))"
       and cfg = "\<lparr>CLOUDFLARE_API_TOKEN = ''t0'', ZONE_ID = ''z1''\<rparr>" and fmt = "\<lambda>v. []"
       and s = "init [] []" and g = "Decoded (JObj [(''success'', JBool True)])" and rest = "[]"]
  by (simp add: init_def SECURITY_RULES_def numeral_eq_Suc listing_request_def post_request_def
      sent_request_def)

text \<open>
  C9. \<open>add_security_rules\<close> first sends the \<^verbatim>\<open>GET\<close> of the entrypoint; whatever its
  reply \<open>g\<close>, the operation goes on to the \<^verbatim>\<open>POST\<close>s, which all go to one path. When
  the \<^verbatim>\<open>GET\<close> fails (in the transport, by an error response, or otherwise), or its
  result holds no \<^verbatim>\<open>result.id\<close>, that path is the phase entrypoint; when it holds an
  id \<open>v\<close>, the path is \<^verbatim>\<open>/zones/{zone}/rulesets/{v}/rules\<close>, unless \<open>v\<close> is a value that
  Python counts as false (such as the empty string), for which it is the entrypoint again.
\<close>

theorem add_security_rules_fallback:
  assumes "add_security_rules cfg P fmt s = (r, s')"
    and "fst (P (listing_request cfg) (world s)) = g"
  shows "\<exists>path reps.
     trace s' = trace s @ (listing_request cfg, g) #
       zip (map (post_request cfg path) SECURITY_RULES) reps \<and>
     reps \<noteq> [] \<and>
     (r = Inr () \<longrightarrow> length reps = 5) \<and>
     (case reply_result g of
        Inl e \<Rightarrow> path = entrypoint cfg
      | Inr result \<Rightarrow>
          (case ruleset_id_of result of
             None \<Rightarrow> path = entrypoint cfg
           | Some v \<Rightarrow>
               path = (if truthy v
                       then ''/zones/'' @ ZONE_ID cfg @ ''/rulesets/'' @ py_str fmt v @ ''/rules''
                       else entrypoint cfg)))"
proof -
  let ?path = "rules_path cfg fmt (resolved_id g)"
  from add_security_rules_effect [of cfg P fmt s] assms obtain reps where
    r: "r = (if Interrupted \<in> set reps then Inl KeyboardInterrupt else Inr ())"
    and tr: "trace s' = trace s @ (listing_request cfg, g) #
               zip (map (post_request cfg ?path) SECURITY_RULES) reps"
    and len: "reps \<noteq> []" "Interrupted \<notin> set reps \<longrightarrow> length reps = 5"
    by auto
  have "r = Inr () \<longrightarrow> length reps = 5" using r len(2) by (auto split: if_splits)
  moreover have "case reply_result g of
        Inl e \<Rightarrow> ?path = entrypoint cfg
      | Inr result \<Rightarrow>
          (case ruleset_id_of result of
             None \<Rightarrow> ?path = entrypoint cfg
           | Some v \<Rightarrow>
               ?path = (if truthy v
                       then ''/zones/'' @ ZONE_ID cfg @ ''/rulesets/'' @ py_str fmt v @ ''/rules''
                       else entrypoint cfg))"
    by (simp add: resolved_id_cases rules_path_def split: sum.splits option.splits)
  ultimately show ?thesis using tr len(1) by blast
qed

text \<open>The id \<^verbatim>\<open>rs7\<close> is resolved, and the five calls go to its rules path although each
  of them fails.\<close>

theorem add_security_rules_fallback_witness:
  "map (\<lambda>p. req_url (fst p))
     (trace (snd (add_security_rules \<lparr>CLOUDFLARE_API_TOKEN = ''t0'', ZONE_ID = ''z1''\<rparr> scripted (\<lambda>v. [])
        (init (Decoded (JObj [(''success'', JBool True),
                               (''result'', JObj [(''id'', JStr ''rs7''), (''rules'', JArr [])])]) #
               replicate 5 (Failed ''reset'')) [])))) =
   ''https://api.cloudflare.com/client/v4/zones/z1/rulesets/phases/http_request_firewall_custom/entrypoint'' #
   replicate 5 ''https://api.cloudflare.com/client/v4/zones/z1/rulesets/rs7/rules''"
  using add_security_rules_fallback
    [where cfg = "\<lparr>CLOUDFLARE_API_TOKEN = ''t0'', ZONE_ID = ''z1''\<rparr>" and P = scripted
       and fmt = "\<lambda>v. []"
       and s = "init (Decoded (JObj [(''success'', JBool True),
                               (''result'', JObj [(''id'', JStr ''rs7''), (''rules'', JArr [])])]) #
               replicate 5 (Failed ''reset'')) []"
       and r = "Inr ()"]
    add_security_rules_scripted
    [where reps = "replicate 5 (Failed ''reset'')"
       and cfg = "\<lparr>CLOUDFLARE_API_TOKEN = ''t0'', ZONE_ID = ''z1''\<rparr>" and fmt = "\<lambda>v. []"
       and s = "init [] []"
       and g = "Decoded (JObj [(''success'', JBool True),
                               (''result'', JObj [(''id'', JStr ''rs7''), (''rules'', JArr [])])])"
       and rest = "[]"]
  by (simp add: init_def SECURITY_RULES_def numeral_eq_Suc listing_request_def post_request_def
      sent_request_def resolved_id_def reply_result_def py_get_def rules_path_def entrypoint_def
      API_BASE_def)

section \<open>The dispatcher\<close>

lemma set_setting_effect:
  "\<exists>t s'. set_setting cfg P svm s = (if Interrupted \<in> snd ` set t then Inl KeyboardInterrupt else Inr (), s') \<and>
     trace s' = trace s @ t \<and> stdin s' = stdin s"
proof -
  obtain setting val message where svm: "svm = (setting, val, message)" by (cases svm)
  let ?req = "sent_request cfg (''/zones/'' @ ZONE_ID cfg @ ''/settings/'' @ setting) ''PATCH''
                (Some (JObj [(''value'', JStr val)]))"
  let ?rep = "fst (P ?req (world s))"
  let ?s' = "(called P ?req s)\<lparr>out := out s @ guard_log ?rep (SettingOk message) (SettingFailed setting)\<rparr>"
  have "set_setting cfg P svm s = (if ?rep = Interrupted then Inl KeyboardInterrupt else Inr (), ?s')"
    by (simp add: svm set_setting_def guarded_print)
  then show ?thesis
    by (intro exI [where x = "[(?req, ?rep)]"] exI [where x = ?s']) auto
qed

lemma settings_loop_effect:
  "\<exists>t s'. settings_loop cfg P xs s = (if Interrupted \<in> snd ` set t then Inl KeyboardInterrupt else Inr (), s') \<and>
     trace s' = trace s @ t \<and> stdin s' = stdin s"
proof (induction xs arbitrary: s)
  case Nil
  show ?case by (intro exI [where x = "[]"] exI [where x = s]) (simp add: ret_def)
next
  case (Cons svm xs)
  from set_setting_effect [of cfg P svm s] obtain t1 s1 where
    one: "set_setting cfg P svm s = (if Interrupted \<in> snd ` set t1 then Inl KeyboardInterrupt else Inr (), s1)"
    and tr1: "trace s1 = trace s @ t1" and in1: "stdin s1 = stdin s"
    by blast
  show ?case
  proof (cases "Interrupted \<in> snd ` set t1")
    case True
    with one tr1 in1 show ?thesis
      by (intro exI [where x = t1] exI [where x = s1]) (simp add: andthen_def)
  next
    case False
    from Cons.IH [of s1] obtain t2 s2 where
      rest: "settings_loop cfg P xs s1 = (if Interrupted \<in> snd ` set t2 then Inl KeyboardInterrupt else Inr (), s2)"
      and tr2: "trace s2 = trace s1 @ t2" and in2: "stdin s2 = stdin s1"
      by blast
    with one tr1 in1 False show ?thesis
      by (intro exI [where x = "t1 @ t2"] exI [where x = s2]) (simp add: andthen_def image_Un)
  qed
qed

lemma configure_security_settings_effect:
  "\<exists>t s'. configure_security_settings cfg P s =
       (if Interrupted \<in> snd ` set t then Inl KeyboardInterrupt else Inr (), s') \<and>
     trace s' = trace s @ t \<and> stdin s' = stdin s"
proof -
  let ?s0 = "s\<lparr>out := out s @ [ConfiguringHeader]\<rparr>"
  from settings_loop_effect [of cfg P settings ?s0] obtain t s1 where
    loop: "settings_loop cfg P settings ?s0 = (if Interrupted \<in> snd ` set t then Inl KeyboardInterrupt else Inr (), s1)"
    and tr: "trace s1 = trace ?s0 @ t" and inp: "stdin s1 = stdin ?s0"
    by blast
  let ?s' = "if Interrupted \<in> snd ` set t then s1 else s1\<lparr>out := out s1 @ [Blank]\<rparr>"
  have "configure_security_settings cfg P s =
          (if Interrupted \<in> snd ` set t then Inl KeyboardInterrupt else Inr (), ?s')"
    using loop by (simp add: configure_security_settings_def andthen_def py_print_def)
  moreover have "trace ?s' = trace s @ t" "stdin ?s' = stdin s" using tr inp by simp_all
  ultimately show ?thesis by blast
qed

text \<open>
  The three branches of \<open>main\<close> that call the provider. With \<^verbatim>\<open>--delete\<close> among the
  arguments (and no \<^verbatim>\<open>--list\<close>) the branch of line 224 is taken whatever else is there:
  \<^verbatim>\<open>--setup\<close> and \<^verbatim>\<open>--force\<close> are not looked at, and the test of line 245 is never
  reached with \<^verbatim>\<open>--delete\<close> present.
\<close>

lemma main_list:
  assumes "valid_credentials cfg" and "''--list'' \<in> set args"
  shows "main cfg P fmt args s = list_existing_rules cfg P (s\<lparr>out := out s @ [Banner]\<rparr>)"
  using assms by (simp add: main_def andthen_def py_print_def ret_def valid_credentials_def)

lemma main_delete:
  assumes "valid_credentials cfg" and "delete_prompt args"
  shows "main cfg P fmt args s =
     andthen (list_existing_rules cfg P) (\<lambda>_.
     andthen (py_input DeletePrompt) (\<lambda>confirm.
       if py_lower confirm = ''yes'' then delete_all_rules cfg P else py_print Cancelled))
     (s\<lparr>out := out s @ [Banner]\<rparr>)"
  using assms
  by (simp add: main_def andthen_def [of "py_print Banner"] andthen_def [of "ret ()"]
      py_print_def ret_def valid_credentials_def delete_prompt_def)

lemma main_setup:
  assumes "valid_credentials cfg" and "setup_prompt args"
  shows "main cfg P fmt args s =
     andthen (list_existing_rules cfg P) (\<lambda>_.
     andthen (py_print SetupWarning) (\<lambda>_.
     andthen (py_input SetupPrompt) (\<lambda>confirm.
       if py_lower confirm \<noteq> ''yes'' then andthen (py_print Cancelled) (\<lambda>_. sys_exit 0)
       else andthen (add_security_rules cfg P fmt) (\<lambda>_.
            andthen (configure_security_settings cfg P) (\<lambda>_.
            py_print SetupComplete)))))
     (s\<lparr>out := out s @ [Banner]\<rparr>)"
proof -
  let ?s0 = "s\<lparr>out := out s @ [Banner]\<rparr>"
  obtain r1 s1 where l: "list_existing_rules cfg P ?s0 = (r1, s1)"
    by (cases "list_existing_rules cfg P ?s0")
  obtain r2 s2 where i: "py_input SetupPrompt (s1\<lparr>out := out s1 @ [SetupWarning]\<rparr>) = (r2, s2)"
    by (cases "py_input SetupPrompt (s1\<lparr>out := out s1 @ [SetupWarning]\<rparr>)")
  from assms show ?thesis
    by (cases r1; cases r2)
       (simp_all add: main_def andthen_def py_print_def ret_def valid_credentials_def
          setup_prompt_def l i sys_exit_def py_raise_def)
qed

lemma posts_mutating:
  "reps \<noteq> [] \<Longrightarrow>
   filter (\<lambda>p. mutating (fst p)) (zip (map (post_request cfg path) SECURITY_RULES) reps) \<noteq> []"
  by (cases reps) (simp_all add: SECURITY_RULES_def mutating_def post_request_def sent_request_def)

lemma declined_delete:
  assumes "valid_credentials cfg" and "delete_prompt args"
    and "fst (P (listing_request cfg) w) \<noteq> Interrupted"
    and "py_lower answer \<noteq> ''yes''"
    and "run cfg P fmt args (init w (Line answer # rest)) = (status, s')"
  shows "status = 0 \<and> last (out s') = Cancelled \<and>
         trace s' = [(listing_request cfg, fst (P (listing_request cfg) w))]"
proof -
  let ?s = "init w (Line answer # rest)"
  let ?s0 = "?s\<lparr>out := out ?s @ [Banner]\<rparr>"
  from list_existing_rules_effect [of cfg P ?s0] assms(3) obtain ms where
    l: "list_existing_rules cfg P ?s0 =
          (Inr (), (called P (listing_request cfg) ?s0)\<lparr>out := out ?s0 @ ms\<rparr>)"
    by (auto simp: init_def)
  from assms(1,2,4,5) l show ?thesis
    by (auto simp: run_def main_delete andthen_def py_input_def py_print_def init_def)
qed

lemma declined_setup:
  assumes "valid_credentials cfg" and "setup_prompt args"
    and "fst (P (listing_request cfg) w) \<noteq> Interrupted"
    and "py_lower answer \<noteq> ''yes''"
    and "run cfg P fmt args (init w (Line answer # rest)) = (status, s')"
  shows "status = 0 \<and> last (out s') = Cancelled \<and>
         trace s' = [(listing_request cfg, fst (P (listing_request cfg) w))]"
proof -
  let ?s = "init w (Line answer # rest)"
  let ?s0 = "?s\<lparr>out := out ?s @ [Banner]\<rparr>"
  from list_existing_rules_effect [of cfg P ?s0] assms(3) obtain ms where
    l: "list_existing_rules cfg P ?s0 =
          (Inr (), (called P (listing_request cfg) ?s0)\<lparr>out := out ?s0 @ ms\<rparr>)"
    by (auto simp: init_def)
  from assms(1,2,4,5) l show ?thesis
    by (auto simp: run_def main_setup andthen_def py_input_def py_print_def sys_exit_def
        py_raise_def init_def)
qed

lemma confirmed_delete:
  assumes "valid_credentials cfg" and "delete_prompt args"
    and "fst (P (listing_request cfg) w) \<noteq> Interrupted"
    and "py_lower answer = ''yes''"
    and "run cfg P fmt args (init w (Line answer # rest)) = (status, s')"
  shows "\<exists>rep. trace s' = [(listing_request cfg, fst (P (listing_request cfg) w)),
                           (delete_request cfg, rep)]"
proof -
  let ?s = "init w (Line answer # rest)"
  let ?s0 = "?s\<lparr>out := out ?s @ [Banner]\<rparr>"
  from list_existing_rules_effect [of cfg P ?s0] assms(3) obtain ms where
    l: "list_existing_rules cfg P ?s0 =
          (Inr (), (called P (listing_request cfg) ?s0)\<lparr>out := out ?s0 @ ms\<rparr>)"
    by (auto simp: init_def)
  from assms(1,2,4,5) l show ?thesis
    by (auto simp: run_def main_delete andthen_def py_input_def delete_all_rules_effect init_def
        split: if_splits)
qed

lemma confirmed_setup:
  assumes "valid_credentials cfg" and "setup_prompt args"
    and "fst (P (listing_request cfg) w) \<noteq> Interrupted"
    and "py_lower answer = ''yes''"
    and "run cfg P fmt args (init w (Line answer # rest)) = (status, s')"
  shows "\<exists>g path reps t. reps \<noteq> [] \<and>
     trace s' = (listing_request cfg, fst (P (listing_request cfg) w)) # (listing_request cfg, g) #
       zip (map (post_request cfg path) SECURITY_RULES) reps @ t"
proof -
  let ?s = "init w (Line answer # rest)"
  let ?s0 = "?s\<lparr>out := out ?s @ [Banner]\<rparr>"
  let ?g0 = "fst (P (listing_request cfg) w)"
  from list_existing_rules_effect [of cfg P ?s0] assms(3) obtain ms where
    l: "list_existing_rules cfg P ?s0 =
          (Inr (), (called P (listing_request cfg) ?s0)\<lparr>out := out ?s0 @ ms\<rparr>)"
    by (auto simp: init_def)
  let ?s1 = "(called P (listing_request cfg) ?s0)
               \<lparr>out := out ?s0 @ ms @ [SetupWarning, SetupPrompt], stdin := rest\<rparr>"
  have tr1: "trace ?s1 = [(listing_request cfg, ?g0)]" by (simp add: init_def)
  from add_security_rules_effect [of cfg P fmt ?s1] obtain reps s2 where
    a: "add_security_rules cfg P fmt ?s1 =
          (if Interrupted \<in> set reps then Inl KeyboardInterrupt else Inr (), s2)"
    and tr2: "trace s2 = trace ?s1 @ (listing_request cfg, fst (P (listing_request cfg) (world ?s1))) #
       zip (map (post_request cfg
                   (rules_path cfg fmt (resolved_id (fst (P (listing_request cfg) (world ?s1))))))
              SECURITY_RULES) reps"
    and ne: "reps \<noteq> []"
    by blast
  from configure_security_settings_effect [of cfg P s2] obtain t s3 where
    c: "configure_security_settings cfg P s2 =
          (if Interrupted \<in> snd ` set t then Inl KeyboardInterrupt else Inr (), s3)"
    and tr3: "trace s3 = trace s2 @ t"
    by blast
  have m: "main cfg P fmt args (init w (Line answer # rest)) =
     andthen (add_security_rules cfg P fmt) (\<lambda>_.
       andthen (configure_security_settings cfg P) (\<lambda>_. py_print SetupComplete)) ?s1"
    using assms(1,2,4) l
    by (simp add: main_setup andthen_def [of "list_existing_rules cfg P"]
        andthen_def [of "py_print SetupWarning"] andthen_def [of "py_input SetupPrompt"]
        py_print_def py_input_def init_def)
  have "trace s' = trace s2 \<or> trace s' = trace s3"
    using assms(5) a c
    by (auto simp: run_def m andthen_def py_print_def split: if_splits)
  with tr1 tr2 tr3 ne show ?thesis
    by (metis append_Cons append_Nil append_Nil2 append.assoc)
qed

text \<open>Evaluating a run on a concrete input unfolds the whole script.\<close>

lemmas script_defs =
  run_def main_def list_existing_rules_def list_rules_body_def delete_all_rules_def
  add_security_rules_def get_ruleset_id_def add_rule_def rules_path_def
  configure_security_settings_def set_setting_def settings_def make_request_def http_call_def
  entrypoint_def API_BASE_def SECURITY_RULES_def rule_1_def rule_2_def rule_3_def rule_4_def
  rule_5_def py_get_def py_input_def py_lower_def lower_char_def init_def prog_defs

lemmas request_defs = listing_request_def delete_request_def post_request_def sent_request_def

text \<open>
  C6. With valid credentials, \<^verbatim>\<open>--setup\<close> among the arguments and no \<^verbatim>\<open>--force\<close>,
  and a first line of input whose lower case is not \<^verbatim>\<open>yes\<close>: the run ends with exit
  status 0 and the only call it has made is the \<^verbatim>\<open>GET\<close> of the listing, so no
  \<^verbatim>\<open>POST\<close>, \<^verbatim>\<open>PUT\<close>, \<^verbatim>\<open>PATCH\<close> or \<^verbatim>\<open>DELETE\<close>. This holds for
  every provider, also when \<^verbatim>\<open>--list\<close> or \<^verbatim>\<open>--delete\<close> is given as well.
\<close>

theorem setup_declined_no_change:
  assumes "valid_credentials cfg"
    and "''--setup'' \<in> set args" and "''--force'' \<notin> set args"
    and "py_lower answer \<noteq> ''yes''"
    and "run cfg P fmt args (init w (Line answer # rest)) = (status, s')"
  shows "status = 0 \<and>
         trace s' = [(listing_request cfg, fst (P (listing_request cfg) w))] \<and>
         filter (\<lambda>p. mutating (fst p)) (trace s') = []"
proof -
  let ?s = "init w (Line answer # rest)"
  let ?s0 = "?s\<lparr>out := out ?s @ [Banner]\<rparr>"
  let ?g = "fst (P (listing_request cfg) w)"
  from list_existing_rules_effect [of cfg P ?s0] obtain ms where
    l: "list_existing_rules cfg P ?s0 =
          (if ?g = Interrupted then Inl KeyboardInterrupt else Inr (),
           (called P (listing_request cfg) ?s0)\<lparr>out := out ?s0 @ ms\<rparr>)"
    by (auto simp: init_def)
  have get: "\<not> mutating (listing_request cfg)"
    by (simp add: mutating_def listing_request_def sent_request_def)
  consider (listing) "''--list'' \<in> set args" | (deleting) "delete_prompt args" | (adding) "setup_prompt args"
    using assms(2,3) by (auto simp: delete_prompt_def setup_prompt_def)
  then have "status = 0 \<and> trace s' = [(listing_request cfg, ?g)]"
  proof cases
    case listing
    with assms(1,5) l show ?thesis
      by (auto simp: run_def main_list init_def split: if_splits)
  next
    case deleting
    with assms(1,4,5) l show ?thesis
      by (auto simp: run_def main_delete andthen_def py_input_def py_print_def init_def
          split: if_splits)
  next
    case adding
    with assms(1,4,5) l show ?thesis
      by (auto simp: run_def main_setup andthen_def py_input_def py_print_def sys_exit_def
          py_raise_def init_def split: if_splits)
  qed
  with get show ?thesis by simp
qed

text \<open>The answer \<^verbatim>\<open>no\<close> to \<^verbatim>\<open>--setup\<close>.\<close>

theorem setup_declined_no_change_witness:
  "run \<lparr>CLOUDFLARE_API_TOKEN = ''t0'', ZONE_ID = ''z1''\<rparr> scripted (\<lambda>v. []) [''--setup'']
     (init [Decoded (JObj [(''success'', JBool True)])] [Line ''no'']) =
   (0, \<lparr>world = [],
        trace = [(listing_request \<lparr>CLOUDFLARE_API_TOKEN = ''t0'', ZONE_ID = ''z1''\<rparr>,
                  Decoded (JObj [(''success'', JBool True)]))],
        out = [Banner, ListingHeader, NoRulesFound, SetupWarning, SetupPrompt, Cancelled],
        stdin = []\<rparr>)"
  using setup_declined_no_change
    [where cfg = "\<lparr>CLOUDFLARE_API_TOKEN = ''t0'', ZONE_ID = ''z1''\<rparr>" and P = scripted
       and fmt = "\<lambda>v. []" and args = "[''--setup'']" and answer = "''no''" and rest = "[]"
       and w = "[Decoded (JObj [(''success'', JBool True)])]" and status = 0
       and s' = "\<lparr>world = [],
        trace = [(listing_request \<lparr>CLOUDFLARE_API_TOKEN = ''t0'', ZONE_ID = ''z1''\<rparr>,
                  Decoded (JObj [(''success'', JBool True)]))],
        out = [Banner, ListingHeader, NoRulesFound, SetupWarning, SetupPrompt, Cancelled],
        stdin = []\<rparr>"]
  by (simp add: script_defs request_defs scripted_def valid_credentials_def)

text \<open>
  C10. With valid credentials and arguments that lead to one of the two prompts, when the
  listing before the prompt is not interrupted and a line is read: the run makes a mutating
  call exactly when the lower case of the line is \<^verbatim>\<open>yes\<close>; for every other line it ends
  with exit status 0, the cancellation message being the last thing printed.
\<close>

theorem confirmation_only_yes:
  assumes "valid_credentials cfg"
    and "delete_prompt args \<or> setup_prompt args"
    and "fst (P (listing_request cfg) w) \<noteq> Interrupted"
    and "run cfg P fmt args (init w (Line answer # rest)) = (status, s')"
  shows "(filter (\<lambda>p. mutating (fst p)) (trace s') \<noteq> [] \<longleftrightarrow> py_lower answer = ''yes'') \<and>
         (py_lower answer \<noteq> ''yes'' \<longrightarrow> status = 0 \<and> last (out s') = Cancelled)"
proof (cases "py_lower answer = ''yes''")
  case True
  have put: "mutating (delete_request cfg)"
    by (simp add: mutating_def delete_request_def sent_request_def)
  from assms(2) have "filter (\<lambda>p. mutating (fst p)) (trace s') \<noteq> []"
  proof
    assume "delete_prompt args"
    from confirmed_delete [OF assms(1) this assms(3) True assms(4)] put show ?thesis
      by (auto split: if_splits)
  next
    assume "setup_prompt args"
    from confirmed_setup [OF assms(1) this assms(3) True assms(4)]
    obtain g path reps t where ne: "reps \<noteq> []"
      and tr: "trace s' = (listing_request cfg, fst (P (listing_request cfg) w)) #
                 (listing_request cfg, g) # zip (map (post_request cfg path) SECURITY_RULES) reps @ t"
      by blast
    from posts_mutating [OF ne, of cfg path] tr show ?thesis by simp
  qed
  with True show ?thesis by simp
next
  case False
  have get: "\<not> mutating (listing_request cfg)"
    by (simp add: mutating_def listing_request_def sent_request_def)
  from assms(2) have "status = 0 \<and> last (out s') = Cancelled \<and>
         trace s' = [(listing_request cfg, fst (P (listing_request cfg) w))]"
  proof
    assume "delete_prompt args"
    from declined_delete [OF assms(1) this assms(3) False assms(4)] show ?thesis .
  next
    assume "setup_prompt args"
    from declined_setup [OF assms(1) this assms(3) False assms(4)] show ?thesis .
  qed
  with False get show ?thesis by simp
qed

text \<open>\<^verbatim>\<open>YES\<close> followed by a space is no confirmation, nor are \<^verbatim>\<open>y\<close> and the
  empty line.\<close>

theorem confirmation_only_yes_witness:
  "py_lower ''YES'' = ''yes'' \<and> py_lower ''YES '' \<noteq> ''yes'' \<and> py_lower ''y'' \<noteq> ''yes'' \<and>
   py_lower [] \<noteq> ''yes'' \<and>
   run \<lparr>CLOUDFLARE_API_TOKEN = ''t0'', ZONE_ID = ''z1''\<rparr> scripted (\<lambda>v. []) [''--delete'']
     (init [Decoded (JObj [(''success'', JBool True)])] [Line ''YES '']) =
   (0, \<lparr>world = [],
        trace = [(listing_request \<lparr>CLOUDFLARE_API_TOKEN = ''t0'', ZONE_ID = ''z1''\<rparr>,
                  Decoded (JObj [(''success'', JBool True)]))],
        out = [Banner, ListingHeader, NoRulesFound, DeletePrompt, Cancelled],
        stdin = []\<rparr>)"
  using confirmation_only_yes
    [where cfg = "\<lparr>CLOUDFLARE_API_TOKEN = ''t0'', ZONE_ID = ''z1''\<rparr>" and P = scripted
       and fmt = "\<lambda>v. []" and args = "[''--delete'']" and answer = "''YES ''" and rest = "[]"
       and w = "[Decoded (JObj [(''success'', JBool True)])]" and status = 0
       and s' = "\<lparr>world = [],
        trace = [(listing_request \<lparr>CLOUDFLARE_API_TOKEN = ''t0'', ZONE_ID = ''z1''\<rparr>,
                  Decoded (JObj [(''success'', JBool True)]))],
        out = [Banner, ListingHeader, NoRulesFound, DeletePrompt, Cancelled],
        stdin = []\<rparr>"]
  by (simp add: script_defs request_defs scripted_def valid_credentials_def delete_prompt_def)

text \<open>
  C1 fails on the code. Given \<^verbatim>\<open>--setup --delete --force\<close> and the answer \<^verbatim>\<open>yes\<close>,
  the dispatcher takes the \<^verbatim>\<open>--delete\<close> branch: it lists, asks the question of line 226
  although \<^verbatim>\<open>--force\<close> is there, deletes, and ends. No rule is added, no setting is
  configured and no completion summary is printed.
\<close>

theorem setup_delete_only_deletes:
  "run \<lparr>CLOUDFLARE_API_TOKEN = ''t0'', ZONE_ID = ''z1''\<rparr> zone_provider (\<lambda>v. [])
     [''--setup'', ''--delete'', ''--force'']
     (init \<lparr>zone_name = ''z1'', zone_ruleset = ''rs7'', zone_rules = []\<rparr> [Line ''yes'']) =
   (0, \<lparr>world = \<lparr>zone_name = ''z1'', zone_ruleset = ''rs7'', zone_rules = []\<rparr>,
        trace = [(listing_request \<lparr>CLOUDFLARE_API_TOKEN = ''t0'', ZONE_ID = ''z1''\<rparr>,
                  Decoded (ruleset_reply \<lparr>zone_name = ''z1'', zone_ruleset = ''rs7'', zone_rules = []\<rparr>)),
                 (delete_request \<lparr>CLOUDFLARE_API_TOKEN = ''t0'', ZONE_ID = ''z1''\<rparr>,
                  Decoded (ruleset_reply \<lparr>zone_name = ''z1'', zone_ruleset = ''rs7'', zone_rules = []\<rparr>))],
        out = [Banner, ListingHeader, NoRulesFound, DeletePrompt, DeletingHeader, AllDeleted],
        stdin = []\<rparr>)"
  by (simp add: script_defs request_defs zone_provider_def ruleset_reply_def)

section \<open>Deleting, then listing\<close>

text \<open>
  C7. Against the provider model \<open>zone_provider\<close>, for a zone that is the configured one
  and whatever rules it holds: \<open>delete_all_rules\<close> followed by \<open>list_existing_rules\<close>
  succeeds in deleting, leaves the zone without rules, and the listing prints the message
  that no rules exist.
\<close>

theorem delete_then_list_reports_none:
  assumes "zone_name (world s) = ZONE_ID cfg"
  shows "andthen (delete_all_rules cfg zone_provider) (\<lambda>u. list_existing_rules cfg zone_provider) s =
     (Inr (),
      s\<lparr>world := (world s)\<lparr>zone_rules := []\<rparr>,
        trace := trace s @
          [(delete_request cfg, Decoded (ruleset_reply ((world s)\<lparr>zone_rules := []\<rparr>))),
           (listing_request cfg, Decoded (ruleset_reply ((world s)\<lparr>zone_rules := []\<rparr>)))],
        out := out s @ [DeletingHeader, AllDeleted, ListingHeader, NoRulesFound]\<rparr>)"
proof -
  let ?z = "(world s)\<lparr>zone_rules := []\<rparr>"
  have put: "zone_provider (delete_request cfg) (world s) = (Decoded (ruleset_reply ?z), ?z)"
    using assms
    by (simp add: zone_provider_def delete_request_def sent_request_def entrypoint_def)
  have get: "zone_provider (listing_request cfg) ?z = (Decoded (ruleset_reply ?z), ?z)"
    using assms
    by (simp add: zone_provider_def listing_request_def sent_request_def entrypoint_def)
  have ok: "reply_result (Decoded (ruleset_reply ?z)) = Inr (ruleset_reply ?z)"
    by (simp add: reply_result_def ruleset_reply_def py_get_def)
  let ?s1 = "s\<lparr>world := ?z,
               trace := trace s @ [(delete_request cfg, Decoded (ruleset_reply ?z))],
               out := out s @ [DeletingHeader, AllDeleted]\<rparr>"
  have d: "delete_all_rules cfg zone_provider s = (Inr (), ?s1)"
    by (simp add: delete_all_rules_effect put guard_log_def ok called_def)
  have l: "list_existing_rules cfg zone_provider ?s1 =
             (Inr (), ?s1\<lparr>trace := trace ?s1 @ [(listing_request cfg, Decoded (ruleset_reply ?z))],
                         out := out ?s1 @ [ListingHeader, NoRulesFound]\<rparr>)"
    using get ok
    by (simp add: list_existing_rules_def list_rules_body_def andthen_def try_except_def
        py_print_def lift_def ret_def make_request_known listing_request_def [symmetric]
        called_def ruleset_reply_def py_get_def)
  show ?thesis by (simp add: andthen_def d l)
qed

text \<open>A zone that holds two rules.\<close>

theorem delete_then_list_reports_none_witness:
  "andthen (delete_all_rules \<lparr>CLOUDFLARE_API_TOKEN = ''t0'', ZONE_ID = ''z1''\<rparr> zone_provider)
     (\<lambda>u. list_existing_rules \<lparr>CLOUDFLARE_API_TOKEN = ''t0'', ZONE_ID = ''z1''\<rparr> zone_provider)
     (init \<lparr>zone_name = ''z1'', zone_ruleset = ''rs7'', zone_rules = [rule_4, rule_5]\<rparr> []) =
   (Inr (),
    \<lparr>world = \<lparr>zone_name = ''z1'', zone_ruleset = ''rs7'', zone_rules = []\<rparr>,
     trace =
       [(delete_request \<lparr>CLOUDFLARE_API_TOKEN = ''t0'', ZONE_ID = ''z1''\<rparr>,
         Decoded (ruleset_reply \<lparr>zone_name = ''z1'', zone_ruleset = ''rs7'', zone_rules = []\<rparr>)),
        (listing_request \<lparr>CLOUDFLARE_API_TOKEN = ''t0'', ZONE_ID = ''z1''\<rparr>,
         Decoded (ruleset_reply \<lparr>zone_name = ''z1'', zone_ruleset = ''rs7'', zone_rules = []\<rparr>))],
     out = [DeletingHeader, AllDeleted, ListingHeader, NoRulesFound],
     stdin = []\<rparr>)"
  using delete_then_list_reports_none
    [where cfg = "\<lparr>CLOUDFLARE_API_TOKEN = ''t0'', ZONE_ID = ''z1''\<rparr>"
       and s = "init \<lparr>zone_name = ''z1'', zone_ruleset = ''rs7'', zone_rules = [rule_4, rule_5]\<rparr> []"]
  by (simp add: init_def)

section \<open>Exit status and the keyboard interrupt\<close>

lemma clean_ret: "clean (ret x)"
  by (simp add: clean_def benign_def ret_def)

lemma clean_print: "clean (py_print m)"
  by (simp add: clean_def benign_def py_print_def)

lemma clean_input: "clean (py_input m)"
  by (simp add: clean_def benign_def py_input_def Let_def split: list.splits input_event.splits)

lemma clean_exit: "clean (sys_exit 0)"
  by (simp add: clean_def benign_def sys_exit_def py_raise_def)

lemma clean_andthen:
  assumes "clean m" and "\<And>x. clean (f x)"
  shows "clean (andthen m f)"
  unfolding clean_def
proof
  fix s
  obtain r s1 where ms: "m s = (r, s1)" by (cases "m s")
  from assms(1) ms have b: "benign r" by (auto simp: clean_def dest!: spec [where x = s])
  show "benign (fst (andthen m f s))"
  proof (cases r)
    case (Inl e)
    with ms b show ?thesis by (simp add: andthen_def benign_def)
  next
    case (Inr x)
    with ms assms(2) [of x] show ?thesis by (simp add: andthen_def clean_def)
  qed
qed

lemma clean_if: "clean a \<Longrightarrow> clean b \<Longrightarrow> clean (if c then a else b)"
  by simp

lemma clean_list: "clean (list_existing_rules cfg P)"
  unfolding clean_def
proof
  fix s :: "'a state"
  from list_existing_rules_effect [of cfg P s] show "benign (fst (list_existing_rules cfg P s))"
    by (auto simp: benign_def)
qed

lemma clean_delete: "clean (delete_all_rules cfg P)"
  by (simp add: clean_def benign_def delete_all_rules_effect)

lemma clean_add: "clean (add_security_rules cfg P fmt)"
  unfolding clean_def
proof
  fix s :: "'a state"
  from add_security_rules_effect [of cfg P fmt s]
  show "benign (fst (add_security_rules cfg P fmt s))"
    by (auto simp: benign_def)
qed

lemma clean_configure: "clean (configure_security_settings cfg P)"
  unfolding clean_def
proof
  fix s :: "'a state"
  from configure_security_settings_effect [of cfg P s]
  show "benign (fst (configure_security_settings cfg P s))"
    by (auto simp: benign_def)
qed

lemmas clean_intros =
  clean_andthen clean_if clean_ret clean_print clean_input clean_exit clean_list clean_delete
  clean_add clean_configure

lemma clean_main: "valid_credentials cfg \<Longrightarrow> clean (main cfg P fmt args)"
  unfolding main_def valid_credentials_def
  by (auto intro!: clean_intros)

text \<open>
  With valid credentials the exit status is 1 when \<^verbatim>\<open>input\<close> meets the end of file, the
  one error that reaches the top level, and 0 in every other case.
\<close>

lemma exit_status:
  assumes "valid_credentials cfg"
  shows "fst (run cfg P fmt args s) = (if fst (main cfg P fmt args s) = Inl EOFError then 1 else 0)"
proof -
  obtain r s' where m: "main cfg P fmt args s = (r, s')" by (cases "main cfg P fmt args s")
  from clean_main [OF assms, of P fmt args] m have "benign r"
    by (auto simp: clean_def dest!: spec [where x = s])
  with m show ?thesis
    by (auto simp: run_def benign_def split: sum.splits)
qed

text \<open>
  C8 fails on the code in what it says of the keyboard interrupt. An interrupt that arrives
  during the \<^verbatim>\<open>GET\<close> of line 154 is caught by the bare \<^verbatim>\<open>except:\<close> of line 156,
  not at the top level: the run goes on as if no ruleset id had been found, submits the five
  rules, configures the five settings and prints the completion summary; no cancellation
  message is printed. (The exit status is 0, as it is by lemma \<open>exit_status\<close>.)
\<close>

theorem interrupt_swallowed_by_bare_except:
  "run \<lparr>CLOUDFLARE_API_TOKEN = ''t0'', ZONE_ID = ''z1''\<rparr> scripted (\<lambda>v. [])
     [''--setup'', ''--force'']
     (init (Decoded (JObj [(''success'', JBool True)]) # Interrupted #
            replicate 10 (Decoded (JObj [(''success'', JBool True)]))) []) =
   (0, \<lparr>world = [],
        trace = zip
          ([listing_request \<lparr>CLOUDFLARE_API_TOKEN = ''t0'', ZONE_ID = ''z1''\<rparr>,
            listing_request \<lparr>CLOUDFLARE_API_TOKEN = ''t0'', ZONE_ID = ''z1''\<rparr>] @
           map (post_request \<lparr>CLOUDFLARE_API_TOKEN = ''t0'', ZONE_ID = ''z1''\<rparr>
                  ''/zones/z1/rulesets/phases/http_request_firewall_custom/entrypoint'')
             [rule_1, rule_2, rule_3, rule_4, rule_5] @
           map (\<lambda>(setting, val).
                  sent_request \<lparr>CLOUDFLARE_API_TOKEN = ''t0'', ZONE_ID = ''z1''\<rparr>
                    (''/zones/z1/settings/'' @ setting) ''PATCH'' (Some (JObj [(''value'', JStr val)])))
             [(''security_level'', ''medium''), (''browser_check'', ''on''),
              (''always_use_https'', ''on''), (''min_tls_version'', ''1.2''), (''tls_1_3'', ''on'')])
          (Decoded (JObj [(''success'', JBool True)]) # Interrupted #
            replicate 10 (Decoded (JObj [(''success'', JBool True)]))),
        out = [Banner, ListingHeader, NoRulesFound, SetupWarning, AddingHeader,
               AddingRule 1 (JStr ''Block AI bots, scrapers, and malicious user agents to protec''),
               RuleSuccess,
               AddingRule 2 (JStr ''Protect admin panel, auth endpoints, and challenge high thre''),
               RuleSuccess,
               AddingRule 3 (JStr ''Block SQL injection, XSS attacks, and malicious file upload ''),
               RuleSuccess,
               AddingRule 4 (JStr ''Block signups from high-risk countries while allowing read a''),
               RuleSuccess,
               AddingRule 5 (JStr ''Whitelist your development IP and trusted services (UPDATE W''),
               RuleSuccess,
               AllAdded, ConfiguringHeader,
               SettingOk ''Security level set to Medium'',
               SettingOk ''Browser Integrity Check enabled'',
               SettingOk ''Always Use HTTPS enabled'',
               SettingOk ''Minimum TLS version set to 1.2'',
               SettingOk ''TLS 1.3 enabled'',
               Blank, SetupComplete],
        stdin = []\<rparr>)"
  by (simp add: script_defs request_defs scripted_def numeral_eq_Suc)

end
